theory Spec2Isabelle
  imports Complex_Main
begin

section \<open>Python values\<close>

text \<open>
  The firmware is MicroPython. Integers are unbounded (\<open>int\<close>); a string is a list of
  characters (one \<open>char\<close> stands for one Python character). A float is modelled by its
  exact rational value, or one of the three non-finite values: rounding to binary
  floating point and overflow to infinity are not modelled. A dictionary decoded from
  JSON is an association list read with \<open>map_of\<close>.
\<close>

datatype pyfloat = Fin rat | PosInf | NegInf | NaN

datatype pyval =
    PNone
  | PBool bool
  | PInt int
  | PFloat pyfloat
  | PStr string
  | PList "pyval list"
  | PDict "(string \<times> pyval) list"

text \<open>An exception is its class and the text that \<open>str(e)\<close> gives.\<close>

datatype exn_kind = TypeError | ValueError | OverflowError | AttributeError | OSError

datatype exn = Exn exn_kind string

fun exn_text :: "exn \<Rightarrow> string" where
  "exn_text (Exn k msg) = msg"

fun exn_kind_of :: "exn \<Rightarrow> exn_kind" where
  "exn_kind_of (Exn k msg) = k"

definition bind_exn :: "exn + 'a \<Rightarrow> ('a \<Rightarrow> exn + 'b) \<Rightarrow> exn + 'b" where
  "bind_exn m f = (case m of Inl e \<Rightarrow> Inl e | Inr x \<Rightarrow> f x)"

subsection \<open>Truth values\<close>

fun py_truthy :: "pyval \<Rightarrow> bool" where
  "py_truthy PNone = False"
| "py_truthy (PBool b) = b"
| "py_truthy (PInt i) = (i \<noteq> 0)"
| "py_truthy (PFloat f) = (f \<noteq> Fin 0)"
| "py_truthy (PStr s) = (s \<noteq> [])"
| "py_truthy (PList xs) = (xs \<noteq> [])"
| "py_truthy (PDict d) = (d \<noteq> [])"

text \<open>\<^verbatim>\<open>a or b\<close> on values, and the truth of an error string that may be \<open>None\<close>.\<close>

definition py_or :: "pyval \<Rightarrow> pyval \<Rightarrow> pyval" where
  "py_or a b = (if py_truthy a then a else b)"

definition str_truthy :: "string option \<Rightarrow> bool" where
  "str_truthy s = (case s of None \<Rightarrow> False | Some t \<Rightarrow> t \<noteq> [])"

text \<open>\<open>str(err)\<close> for an error string that may be \<open>None\<close>.\<close>

definition opt_str :: "string option \<Rightarrow> string" where
  "opt_str s = (case s of None \<Rightarrow> ''None'' | Some t \<Rightarrow> t)"

subsection \<open>Reading numbers: the builtins float() and int()\<close>

definition is_space :: "char \<Rightarrow> bool" where
  "is_space c = (of_char c \<in> {9, 10, 11, 12, 13, 32 :: nat})"

definition is_digit :: "char \<Rightarrow> bool" where
  "is_digit c = (48 \<le> (of_char c :: nat) \<and> (of_char c :: nat) \<le> 57)"

definition digits_val :: "string \<Rightarrow> nat" where
  "digits_val ds = foldl (\<lambda>a c. 10 * a + (of_char c - 48)) 0 ds"

definition lower :: "char \<Rightarrow> char" where
  "lower c =
     (case map_of (zip ''ABCDEFGHIJKLMNOPQRSTUVWXYZ'' ''abcdefghijklmnopqrstuvwxyz'') c of
        None \<Rightarrow> c
      | Some d \<Rightarrow> d)"

definition py_strip :: "string \<Rightarrow> string" where
  "py_strip s = rev (dropWhile is_space (rev (dropWhile is_space s)))"

fun split_sign :: "string \<Rightarrow> bool \<times> string" where
  "split_sign [] = (False, [])"
| "split_sign (c # r) =
     (if c = CHR ''-'' then (True, r) else if c = CHR ''+'' then (False, r) else (False, c # r))"

text \<open>
  The exponent of a decimal literal: nothing, or \<open>e\<close>/\<open>E\<close>, an optional sign and at
  least one digit.
\<close>

fun parse_exponent :: "string \<Rightarrow> int option" where
  "parse_exponent [] = Some 0"
| "parse_exponent (c # r) =
     (if c = CHR ''e'' \<or> c = CHR ''E'' then
        (case split_sign r of (neg, ds) \<Rightarrow>
           if ds \<noteq> [] \<and> list_all is_digit ds
           then Some (if neg then - int (digits_val ds) else int (digits_val ds))
           else None)
      else None)"

definition scale10 :: "rat \<Rightarrow> int \<Rightarrow> rat" where
  "scale10 m e = (if 0 \<le> e then m * 10 ^ nat e else m / 10 ^ nat (- e))"

text \<open>
  An unsigned decimal literal: digits, an optional point and more digits (at least one
  digit in all), and an optional exponent.
\<close>

definition parse_decimal :: "string \<Rightarrow> rat option" where
  "parse_decimal s =
     (let ip = takeWhile is_digit s;
          r1 = dropWhile is_digit s;
          dot = (r1 \<noteq> [] \<and> hd r1 = CHR ''.'');
          fp = (if dot then takeWhile is_digit (tl r1) else []);
          r2 = (if dot then dropWhile is_digit (tl r1) else r1)
      in if ip = [] \<and> fp = [] then None
         else (case parse_exponent r2 of
                 None \<Rightarrow> None
               | Some e \<Rightarrow> Some (scale10 (of_nat (digits_val (ip @ fp))) (e - int (length fp)))))"

text \<open>
  \<open>float(s)\<close> for a string: surrounding whitespace is dropped, then a sign, then
  \<open>inf\<close>, \<open>infinity\<close> or \<open>nan\<close> in any case, or a decimal literal. Underscores
  between digits, which CPython also reads, are not recognised here, and a literal too
  large for a double stays finite.
\<close>

definition float_of_str :: "string \<Rightarrow> pyfloat option" where
  "float_of_str s =
     (case split_sign (py_strip s) of (neg, u) \<Rightarrow>
        if map lower u = ''inf'' \<or> map lower u = ''infinity''
        then Some (if neg then NegInf else PosInf)
        else if map lower u = ''nan'' then Some NaN
        else (case parse_decimal u of
                None \<Rightarrow> None
              | Some r \<Rightarrow> Some (Fin (if neg then - r else r))))"

text \<open>\<open>int(s)\<close> for a string, base 10: whitespace, a sign, digits only.\<close>

definition int_of_str :: "string \<Rightarrow> int option" where
  "int_of_str s =
     (case split_sign (py_strip s) of (neg, u) \<Rightarrow>
        if u \<noteq> [] \<and> list_all is_digit u
        then Some (if neg then - int (digits_val u) else int (digits_val u))
        else None)"

fun py_float :: "pyval \<Rightarrow> exn + pyfloat" where
  "py_float PNone = Inl (Exn TypeError [])"
| "py_float (PBool b) = Inr (Fin (if b then 1 else 0))"
| "py_float (PInt i) = Inr (Fin (of_int i))"
| "py_float (PFloat f) = Inr f"
| "py_float (PStr s) =
     (case float_of_str s of None \<Rightarrow> Inl (Exn ValueError []) | Some f \<Rightarrow> Inr f)"
| "py_float (PList xs) = Inl (Exn TypeError [])"
| "py_float (PDict d) = Inl (Exn TypeError [])"

text \<open>\<open>int(x)\<close> truncates a float toward zero and rejects the non-finite ones.\<close>

definition trunc_rat :: "rat \<Rightarrow> int" where
  "trunc_rat r = (if 0 \<le> r then \<lfloor>r\<rfloor> else \<lceil>r\<rceil>)"

fun py_int :: "pyval \<Rightarrow> exn + int" where
  "py_int PNone = Inl (Exn TypeError [])"
| "py_int (PBool b) = Inr (if b then 1 else 0)"
| "py_int (PInt i) = Inr i"
| "py_int (PFloat (Fin r)) = Inr (trunc_rat r)"
| "py_int (PFloat PosInf) = Inl (Exn OverflowError [])"
| "py_int (PFloat NegInf) = Inl (Exn OverflowError [])"
| "py_int (PFloat NaN) = Inl (Exn ValueError [])"
| "py_int (PStr s) =
     (case int_of_str s of None \<Rightarrow> Inl (Exn ValueError []) | Some i \<Rightarrow> Inr i)"
| "py_int (PList xs) = Inl (Exn TypeError [])"
| "py_int (PDict d) = Inl (Exn TypeError [])"

text \<open>
  \<^verbatim>\<open>
  def is_number(x):
      try:
          float(x)
          return True
      except Exception:
          return False
  \<close>
\<close>

definition is_number :: "pyval \<Rightarrow> bool" where
  "is_number x = (case py_float x of Inl e \<Rightarrow> False | Inr f \<Rightarrow> True)"

subsection \<open>Dictionaries\<close>

text \<open>
  \<open>x.get(key, default)\<close>: a lookup when \<open>x\<close> is a dictionary, AttributeError for any
  other value the JSON decoder can produce.
\<close>

definition lookup_or :: "(string \<times> pyval) list \<Rightarrow> string \<Rightarrow> pyval \<Rightarrow> pyval" where
  "lookup_or d k dflt = (case map_of d k of None \<Rightarrow> dflt | Some v \<Rightarrow> v)"

fun attr_get :: "pyval \<Rightarrow> string \<Rightarrow> pyval \<Rightarrow> exn + pyval" where
  "attr_get (PDict d) k dflt = Inr (lookup_or d k dflt)"
| "attr_get x k dflt = Inl (Exn AttributeError [])"

subsection \<open>Formatting\<close>

text \<open>
  \<open>template.format(args)\<close> for the templates of the source, whose only replacement
  field is \<open>{}\<close>: each field takes the next argument, already converted to a string.
\<close>

fun py_format :: "string \<Rightarrow> string list \<Rightarrow> string" where
  "py_format (a # b # cs) args =
     (if a = CHR ''{'' \<and> b = CHR ''}''
      then (case args of [] \<Rightarrow> py_format cs [] | x # xs \<Rightarrow> x @ py_format cs xs)
      else a # py_format (b # cs) args)"
| "py_format cs args = cs"

text \<open>A template part between single quotes, as in \<^verbatim>\<open>ssid='{}'\<close>.\<close>

definition quoted :: "string \<Rightarrow> string" where
  "quoted s = [CHR 0x27] @ s @ [CHR 0x27]"

function nat_digits :: "nat \<Rightarrow> string" where
  "nat_digits n =
     (if n < 10 then [''0123456789'' ! n]
      else nat_digits (n div 10) @ [''0123456789'' ! (n mod 10)])"
  by pat_completeness auto
termination
  by (relation "measure id") auto

declare nat_digits.simps [simp del]

definition str_int :: "int \<Rightarrow> string" where
  "str_int i = (if i < 0 then CHR ''-'' # nat_digits (nat (- i)) else nat_digits (nat i))"

text \<open>The field \<open>{:02d}\<close> of get_time_string.\<close>

definition two_digits :: "int \<Rightarrow> string" where
  "two_digits i = (if 0 \<le> i \<and> i < 10 then CHR ''0'' # str_int i else str_int i)"


subsection \<open>Slicing and string repetition\<close>

text \<open>
  \<^verbatim>\<open>s[:n]\<close>: the first \<open>n\<close> characters for \<open>n \<ge> 0\<close>, all but the last \<open>-n\<close> for a
  negative \<open>n\<close>. \<^verbatim>\<open>" " * n\<close> is empty for \<open>n \<le> 0\<close>.
\<close>

definition py_slice_to :: "'a list \<Rightarrow> int \<Rightarrow> 'a list" where
  "py_slice_to xs n =
     (if 0 \<le> n then take (nat n) xs else take (nat (int (length xs) + n)) xs)"

definition py_spaces :: "int \<Rightarrow> string" where
  "py_spaces n = replicate (nat n) (CHR '' '')"

subsection \<open>clamp_str and pad_right\<close>

text \<open>
  \<^verbatim>\<open>
  def pad_right(s, width):
      s = "" if s is None else str(s)
      if len(s) > width:
          return s[:width]
      return s + (" " * (width - len(s)))
  \<close>
  Every caller passes a string or \<open>None\<close>, for which \<open>str(s)\<close> is \<open>s\<close>.
\<close>

definition clamp_str :: "string option \<Rightarrow> int \<Rightarrow> string" where
  "clamp_str s max_len =
     (let s = (case s of None \<Rightarrow> [] | Some t \<Rightarrow> t)
      in if int (length s) > max_len then py_slice_to s max_len else s)"

definition pad_right :: "string option \<Rightarrow> int \<Rightarrow> string" where
  "pad_right s width =
     (let s = (case s of None \<Rightarrow> [] | Some t \<Rightarrow> t)
      in if int (length s) > width then py_slice_to s width
         else s @ py_spaces (width - int (length s)))"


section \<open>The device and its surroundings\<close>

text \<open>
  Everything the program does to the outside is an event appended to a trace. What the
  outside answers is read from an environment: the \<open>n\<close>-th call that needs an answer
  (\<open>calls\<close> counts them) gets the environment's answer for \<open>n\<close>, so an environment
  is any behaviour of the radio, the network, the resolver and the display driver.
  The clock counts milliseconds since boot; it advances in sleeps and in HTTP requests.
\<close>

datatype event =
    Log string
  | Sleep nat
  | WlanActive bool
  | WlanConnect string string
  | WlanDisconnect
  | LcdClear
  | LcdSetCursor int int
  | LcdWrite string
  | HttpRequest string bool
  | HttpClose
  | Resolve string int

datatype http_answer = Raises exn | Response int "pyval option"

record env =
  isconnected_at :: "nat \<Rightarrow> bool"
  ifconfig_at :: "nat \<Rightarrow> exn + (string \<times> string \<times> string \<times> string)"
  getaddrinfo_at :: "nat \<Rightarrow> string \<Rightarrow> int \<Rightarrow> exn + string"
  lcd_at :: "nat \<Rightarrow> exn option"
  urequests_get_at :: "nat \<Rightarrow> string \<Rightarrow> http_answer"
  http_ms :: "nat \<Rightarrow> nat"
  localtime_at :: "nat \<Rightarrow> int \<times> int \<times> int"
  py_round :: "pyfloat \<Rightarrow> int \<Rightarrow> pyfloat"
  repr :: "pyval \<Rightarrow> string"

record world =
  clock :: nat
  calls :: nat
  radio_on :: bool
  trace :: "event list"

text \<open>
  \<open>str(x)\<close>, as \<open>format\<close> applies it: written out for \<open>None\<close>, booleans, integers
  and strings, the runtime's own text (\<open>repr\<close> of the environment) for floats, lists
  and dictionaries.
\<close>

fun py_str :: "env \<Rightarrow> pyval \<Rightarrow> string" where
  "py_str env PNone = ''None''"
| "py_str env (PBool b) = (if b then ''True'' else ''False'')"
| "py_str env (PInt i) = str_int i"
| "py_str env (PStr s) = s"
| "py_str env v = repr env v"

subsection \<open>utime\<close>

text \<open>
  \<open>ticks_ms\<close> wraps around at \<open>TICKS_PERIOD\<close>, \<open>2 ^ 30\<close> in MicroPython;
  \<open>ticks_add\<close> and \<open>ticks_diff\<close> compute modulo the period, and \<open>ticks_diff\<close>
  gives a signed value in the half-open range of half a period around zero.
\<close>

definition TICKS_PERIOD :: int where
  "TICKS_PERIOD = 1073741824"

definition ticks_of :: "nat \<Rightarrow> int" where
  "ticks_of c = int c mod TICKS_PERIOD"

definition ticks_ms :: "world \<Rightarrow> int" where
  "ticks_ms w = ticks_of (clock w)"

definition ticks_add :: "int \<Rightarrow> int \<Rightarrow> int" where
  "ticks_add t delta = (t + delta) mod TICKS_PERIOD"

definition ticks_diff :: "int \<Rightarrow> int \<Rightarrow> int" where
  "ticks_diff a b = (a - b + TICKS_PERIOD div 2) mod TICKS_PERIOD - TICKS_PERIOD div 2"

definition sleep_ms :: "nat \<Rightarrow> world \<Rightarrow> world" where
  "sleep_ms n w = w\<lparr>clock := clock w + n, trace := trace w @ [Sleep n]\<rparr>"

definition sleep :: "nat \<Rightarrow> world \<Rightarrow> world" where
  "sleep s w = sleep_ms (1000 * s) w"

subsection \<open>Logging\<close>

text \<open>
  \<open>log\<close> prints the line and appends it to the log file, swallowing a failed write:
  the model records the message.
\<close>

definition log_msg :: "string \<Rightarrow> world \<Rightarrow> world" where
  "log_msg msg w = w\<lparr>trace := trace w @ [Log msg]\<rparr>"

subsection \<open>The display\<close>

text \<open>
  \<open>lcd\<close> is the driver object or \<open>None\<close>. A driver call on \<open>None\<close> raises
  AttributeError; on the object it raises what the environment says, or succeeds and
  is recorded.
\<close>

datatype lcd = Lcd_i2c

definition lcd_call :: "env \<Rightarrow> lcd option \<Rightarrow> event \<Rightarrow> world \<Rightarrow> (exn + unit) \<times> world" where
  "lcd_call env l ev w =
     (case l of
        None \<Rightarrow> (Inl (Exn AttributeError []), w)
      | Some d \<Rightarrow>
          (case lcd_at env (calls w) of
             Some e \<Rightarrow> (Inl e, w\<lparr>calls := calls w + 1\<rparr>)
           | None \<Rightarrow> (Inr (), w\<lparr>calls := calls w + 1, trace := trace w @ [ev]\<rparr>)))"

text \<open>Driver calls in sequence, up to the first that raises.\<close>

fun lcd_calls :: "env \<Rightarrow> lcd option \<Rightarrow> event list \<Rightarrow> world \<Rightarrow> (exn + unit) \<times> world" where
  "lcd_calls env l [] w = (Inr (), w)"
| "lcd_calls env l (ev # evs) w =
     (case lcd_call env l ev w of
        (Inl e, w1) \<Rightarrow> (Inl e, w1)
      | (Inr u, w1) \<Rightarrow> lcd_calls env l evs w1)"

text \<open>
  \<^verbatim>\<open>
  def lcd_write_lines(lcd, cols, line0, line1):
      l0 = pad_right(line0, cols)
      l1 = pad_right(line1, cols)
      lcd.set_cursor(0, 0)
      lcd.write(l0)
      lcd.set_cursor(0, 1)
      lcd.write(l1)
  \<close>
\<close>

definition lcd_write_lines_ops :: "int \<Rightarrow> string \<Rightarrow> string \<Rightarrow> event list" where
  "lcd_write_lines_ops cols line0 line1 =
     [LcdSetCursor 0 0, LcdWrite (pad_right (Some line0) cols),
      LcdSetCursor 0 1, LcdWrite (pad_right (Some line1) cols)]"

definition lcd_write_lines ::
  "env \<Rightarrow> lcd option \<Rightarrow> int \<Rightarrow> string \<Rightarrow> string \<Rightarrow> world \<Rightarrow> (exn + unit) \<times> world" where
  "lcd_write_lines env l cols line0 line1 w =
     lcd_calls env l (lcd_write_lines_ops cols line0 line1) w"

text \<open>
  The screens of the source are all \<open>lcd.clear()\<close> followed by
  \<open>lcd_write_lines\<close> inside a \<open>try\<close>.
\<close>

definition lcd_screen ::
  "env \<Rightarrow> lcd option \<Rightarrow> int \<Rightarrow> string \<Rightarrow> string \<Rightarrow> world \<Rightarrow> (exn + unit) \<times> world" where
  "lcd_screen env l cols line0 line1 w =
     lcd_calls env l (LcdClear # lcd_write_lines_ops cols line0 line1) w"

text \<open>
  \<^verbatim>\<open>
  def show_error(lcd, cols, msg, seconds=2):
      log("ERROR: {}".format(msg))
      try:
          if lcd:
              lcd.clear()
              lcd_write_lines(lcd, cols, "ERROR", clamp_str(msg, cols))
      except Exception as e:
          log("LCD show_error failed: {}".format(e))
      utime.sleep(seconds)
  \<close>
\<close>

definition show_error :: "env \<Rightarrow> lcd option \<Rightarrow> int \<Rightarrow> string \<Rightarrow> nat \<Rightarrow> world \<Rightarrow> world" where
  "show_error env l cols msg seconds w =
     (let w1 = log_msg (py_format ''ERROR: {}'' [msg]) w;
          w2 = (if l \<noteq> None then
                  (case lcd_screen env l cols ''ERROR'' (clamp_str (Some msg) cols) w1 of
                     (Inl e, w') \<Rightarrow> log_msg (py_format ''LCD show_error failed: {}'' [exn_text e]) w'
                   | (Inr u, w') \<Rightarrow> w')
                else w1)
      in sleep seconds w2)"


section \<open>WiFi\<close>

definition wlan_isconnected :: "env \<Rightarrow> world \<Rightarrow> bool \<times> world" where
  "wlan_isconnected env w = (isconnected_at env (calls w), w\<lparr>calls := calls w + 1\<rparr>)"

definition wlan_active_set :: "bool \<Rightarrow> world \<Rightarrow> world" where
  "wlan_active_set b w = w\<lparr>radio_on := b, trace := trace w @ [WlanActive b]\<rparr>"

definition wlan_connect :: "string \<Rightarrow> string \<Rightarrow> world \<Rightarrow> world" where
  "wlan_connect ssid password w = w\<lparr>trace := trace w @ [WlanConnect ssid password]\<rparr>"

text \<open>\<open>wlan.disconnect()\<close> sits in a \<open>try\<close> whose handler is \<open>pass\<close>.\<close>

definition wlan_disconnect :: "world \<Rightarrow> world" where
  "wlan_disconnect w = w\<lparr>trace := trace w @ [WlanDisconnect]\<rparr>"

definition wlan_ifconfig ::
  "env \<Rightarrow> world \<Rightarrow> (exn + (string \<times> string \<times> string \<times> string)) \<times> world" where
  "wlan_ifconfig env w = (ifconfig_at env (calls w), w\<lparr>calls := calls w + 1\<rparr>)"

text \<open>
  \<^verbatim>\<open>
  def log_netinfo(wlan):
      try:
          ip, mask, gw, dns = wlan.ifconfig()
          log("IFCONFIG ip={} mask={} gw={} dns={}".format(ip, mask, gw, dns))
      except Exception as e:
          log("ifconfig read failed: {}".format(e))
  \<close>
\<close>

definition log_netinfo :: "env \<Rightarrow> world \<Rightarrow> world" where
  "log_netinfo env w =
     (case wlan_ifconfig env w of
        (Inr (ip_s, mask_s, gw_s, dns_s), w1) \<Rightarrow>
          log_msg (py_format ''IFCONFIG ip={} mask={} gw={} dns={}'' [ip_s, mask_s, gw_s, dns_s]) w1
      | (Inl e, w1) \<Rightarrow> log_msg (py_format ''ifconfig read failed: {}'' [exn_text e]) w1)"

text \<open>
  \<^verbatim>\<open>
  def dns_test(host, port=80):
      try:
          ai = socket.getaddrinfo(host, port)
          ip = ai[0][4][0]
          log("DNS OK {} -> {}".format(host, ip))
          return True
      except Exception as e:
          log("DNS FAIL {} -> {}".format(host, e))
          return False
  \<close>
  The environment's answer is the address \<open>ai[0][4][0]\<close>, or the exception of the
  lookup or of the indexing.
\<close>

definition dns_test :: "env \<Rightarrow> string \<Rightarrow> int \<Rightarrow> world \<Rightarrow> bool \<times> world" where
  "dns_test env host port w =
     (let w1 = w\<lparr>calls := calls w + 1, trace := trace w @ [Resolve host port]\<rparr>
      in case getaddrinfo_at env (calls w) host port of
           Inr ip_s \<Rightarrow> (True, log_msg (py_format ''DNS OK {} -> {}'' [host, ip_s]) w1)
         | Inl e \<Rightarrow> (False, log_msg (py_format ''DNS FAIL {} -> {}'' [host, exn_text e]) w1))"

subsection \<open>wifi_connect\<close>

text \<open>
  \<^verbatim>\<open>
  def wifi_connect(wlan, ssid, password, lcd=None, cols=16, max_wait_s=20):
      if not wlan.active():
          wlan.active(True)
      if wlan.isconnected():
          return True
      log("WiFi connect() -> ssid='{}'".format(ssid))
      wlan.connect(ssid, password)
      start = utime.ticks_ms()
      while not wlan.isconnected():
          if lcd:
              try:
                  lcd_write_lines(lcd, cols, "Connecting WiFi", "Please wait...")
              except Exception as e:
                  log("LCD write failed (wifi loop): {}".format(e))
          if utime.ticks_diff(utime.ticks_ms(), start) > max_wait_s * 1000:
              log("WiFi connect TIMEOUT")
              return False
          utime.sleep_ms(300)
      ip = wlan.ifconfig()[0]
      log("WiFi connected, IP={}".format(ip))
      log_netinfo(wlan)
      utime.sleep(1)
      dns_test("ip-api.com", 80)
      dns_test("api.openweathermap.org", 443)
      return True
  \<close>
  One turn of the \<open>while\<close> loop either leaves it (\<open>Done True\<close>: connected,
  \<open>Done False\<close>: timed out) or goes round again. Nothing bounds the loop for an
  arbitrary \<open>max_wait_s\<close> (\<open>ticks_diff\<close> never exceeds half a period), so the loop is a
  partial function: \<open>None\<close> is a loop that never ends.
\<close>

datatype 'a step = Done 'a | Again

definition wifi_poll ::
  "env \<Rightarrow> lcd option \<Rightarrow> int \<Rightarrow> int \<Rightarrow> int \<Rightarrow> world \<Rightarrow> bool step \<times> world" where
  "wifi_poll env l cols start max_wait_s w =
     (case wlan_isconnected env w of
        (True, w1) \<Rightarrow> (Done True, w1)
      | (False, w1) \<Rightarrow>
          (let w2 = (if l \<noteq> None then
                       (case lcd_write_lines env l cols ''Connecting WiFi'' ''Please wait...'' w1 of
                          (Inl e, w') \<Rightarrow>
                            log_msg (py_format ''LCD write failed (wifi loop): {}'' [exn_text e]) w'
                        | (Inr u, w') \<Rightarrow> w')
                     else w1)
           in if ticks_diff (ticks_ms w2) start > max_wait_s * 1000
              then (Done False, log_msg ''WiFi connect TIMEOUT'' w2)
              else (Again, sleep_ms 300 w2)))"

partial_function (option) wifi_wait ::
  "env \<Rightarrow> lcd option \<Rightarrow> int \<Rightarrow> int \<Rightarrow> int \<Rightarrow> world \<Rightarrow> (bool \<times> world) option" where
  "wifi_wait env l cols start max_wait_s w =
     (case wifi_poll env l cols start max_wait_s w of
        (Done b, w1) \<Rightarrow> Some (b, w1)
      | (Again, w1) \<Rightarrow> wifi_wait env l cols start max_wait_s w1)"

text \<open>The call of \<open>wlan.connect\<close> and its log line, which start the wait.\<close>

definition wifi_start :: "string \<Rightarrow> string \<Rightarrow> world \<Rightarrow> world" where
  "wifi_start ssid password w =
     wlan_connect ssid password
       (log_msg (py_format (''WiFi connect() -> ssid='' @ quoted ''{}'') [ssid]) w)"

text \<open>What follows the loop once the interface reports connected.\<close>

definition wifi_connected :: "env \<Rightarrow> world \<Rightarrow> (exn + bool) \<times> world" where
  "wifi_connected env w =
     (case wlan_ifconfig env w of
        (Inl e, w1) \<Rightarrow> (Inl e, w1)
      | (Inr (ip_s, mask_s, gw_s, dns_s), w1) \<Rightarrow>
          (let w2 = log_msg (py_format ''WiFi connected, IP={}'' [ip_s]) w1;
               w3 = log_netinfo env w2;
               w4 = sleep 1 w3;
               w5 = snd (dns_test env ''ip-api.com'' 80 w4);
               w6 = snd (dns_test env ''api.openweathermap.org'' 443 w5)
           in (Inr True, w6)))"

definition wifi_connect ::
  "env \<Rightarrow> string \<Rightarrow> string \<Rightarrow> lcd option \<Rightarrow> int \<Rightarrow> int \<Rightarrow> world
     \<Rightarrow> ((exn + bool) \<times> world) option" where
  "wifi_connect env ssid password l cols max_wait_s w =
     (let w1 = (if \<not> radio_on w then wlan_active_set True w else w)
      in case wlan_isconnected env w1 of
           (True, w2) \<Rightarrow> Some (Inr True, w2)
         | (False, w2) \<Rightarrow>
             (let w4 = wifi_start ssid password w2
              in case wifi_wait env l cols (ticks_ms w4) max_wait_s w4 of
                   None \<Rightarrow> None
                 | Some (False, w5) \<Rightarrow> Some (Inr False, w5)
                 | Some (True, w5) \<Rightarrow> Some (wifi_connected env w5)))"

subsection \<open>wifi_ensure_connected\<close>

text \<open>
  \<^verbatim>\<open>
  def wifi_ensure_connected(wlan, ssid, password, lcd=None, cols=16):
      if wlan.isconnected():
          return True
      for attempt in range(1, 4):
          log("WiFi reconnect attempt {}".format(attempt))
          ok = wifi_connect(wlan, ssid, password, lcd=lcd, cols=cols, max_wait_s=20)
          if ok:
              return True
          utime.sleep_ms(500)
      log("WiFi hard reset interface")
      try:
          wlan.disconnect()
      except Exception:
          pass
      utime.sleep_ms(200)
      wlan.active(False)
      utime.sleep_ms(200)
      wlan.active(True)
      utime.sleep_ms(200)
      return wifi_connect(wlan, ssid, password, lcd=lcd, cols=cols, max_wait_s=25)
  \<close>
  The \<open>for\<close> loop runs over the attempt numbers; it gives \<open>Done\<close> when the function
  returns from inside the loop and \<open>Again\<close> when the loop runs out.
\<close>

fun wifi_attempts ::
  "env \<Rightarrow> string \<Rightarrow> string \<Rightarrow> lcd option \<Rightarrow> int \<Rightarrow> int list \<Rightarrow> world
     \<Rightarrow> ((exn + bool step) \<times> world) option" where
  "wifi_attempts env ssid password l cols [] w = Some (Inr Again, w)"
| "wifi_attempts env ssid password l cols (attempt # rest) w =
     (let w1 = log_msg (py_format ''WiFi reconnect attempt {}'' [str_int attempt]) w
      in case wifi_connect env ssid password l cols 20 w1 of
           None \<Rightarrow> None
         | Some (Inl e, w2) \<Rightarrow> Some (Inl e, w2)
         | Some (Inr True, w2) \<Rightarrow> Some (Inr (Done True), w2)
         | Some (Inr False, w2) \<Rightarrow> wifi_attempts env ssid password l cols rest (sleep_ms 500 w2))"

definition hard_reset :: "world \<Rightarrow> world" where
  "hard_reset w =
     (let w1 = log_msg ''WiFi hard reset interface'' w;
          w2 = wlan_disconnect w1;
          w3 = sleep_ms 200 w2;
          w4 = wlan_active_set False w3;
          w5 = sleep_ms 200 w4;
          w6 = wlan_active_set True w5
      in sleep_ms 200 w6)"

definition wifi_ensure_connected ::
  "env \<Rightarrow> string \<Rightarrow> string \<Rightarrow> lcd option \<Rightarrow> int \<Rightarrow> world \<Rightarrow> ((exn + bool) \<times> world) option" where
  "wifi_ensure_connected env ssid password l cols w =
     (case wlan_isconnected env w of
        (True, w1) \<Rightarrow> Some (Inr True, w1)
      | (False, w1) \<Rightarrow>
          (case wifi_attempts env ssid password l cols [1, 2, 3] w1 of
             None \<Rightarrow> None
           | Some (Inl e, w2) \<Rightarrow> Some (Inl e, w2)
           | Some (Inr (Done b), w2) \<Rightarrow> Some (Inr b, w2)
           | Some (Inr Again, w2) \<Rightarrow>
               wifi_connect env ssid password l cols 25 (hard_reset w2)))"


section \<open>HTTP and the two APIs\<close>

text \<open>
  \<^verbatim>\<open>
  def http_get_json(url, timeout_s=10):
      r = None
      try:
          log("HTTP GET {}".format(url))
          try:
              r = urequests.get(url, timeout=timeout_s)
          except TypeError:
              r = urequests.get(url)
          log("HTTP status {}".format(r.status_code))
          if r.status_code != 200:
              return None, "HTTP {}".format(r.status_code)
          try:
              return r.json(), None
          except Exception:
              return None, "Bad JSON"
      except Exception as e:
          return None, "NET {}".format(e)
      finally:
          try:
              if r:
                  r.close()
          except Exception:
              pass
  \<close>
  A response is its status code and its decoded body, \<open>None\<close> when \<open>r.json()\<close>
  raises. The flag of \<open>HttpRequest\<close> says whether the call passed \<open>timeout\<close>.
\<close>

definition urequests_get :: "env \<Rightarrow> string \<Rightarrow> bool \<Rightarrow> world \<Rightarrow> http_answer \<times> world" where
  "urequests_get env url with_timeout w =
     (urequests_get_at env (calls w) url,
      w\<lparr>clock := clock w + http_ms env (calls w), calls := calls w + 1,
        trace := trace w @ [HttpRequest url with_timeout]\<rparr>)"

definition is_TypeError :: "http_answer \<Rightarrow> bool" where
  "is_TypeError a = (case a of Raises e \<Rightarrow> exn_kind_of e = TypeError | Response s b \<Rightarrow> False)"

definition http_get_json :: "env \<Rightarrow> string \<Rightarrow> world \<Rightarrow> (pyval \<times> string option) \<times> world" where
  "http_get_json env url w =
     (let w1 = log_msg (py_format ''HTTP GET {}'' [url]) w;
          (a1, w2) = urequests_get env url True w1;
          (a, w3) = (if is_TypeError a1 then urequests_get env url False w2 else (a1, w2))
      in case a of
           Raises e \<Rightarrow> ((PNone, Some (py_format ''NET {}'' [exn_text e])), w3)
         | Response status body \<Rightarrow>
             (let w4 = log_msg (py_format ''HTTP status {}'' [str_int status]) w3;
                  w5 = w4\<lparr>trace := trace w4 @ [HttpClose]\<rparr>
              in if status \<noteq> 200
                 then ((PNone, Some (py_format ''HTTP {}'' [str_int status])), w5)
                 else (case body of
                         None \<Rightarrow> ((PNone, Some ''Bad JSON''), w5)
                       | Some d \<Rightarrow> ((d, None), w5))))"

text \<open>
  The pair that \<open>http_get_json\<close> returns, read off the answer that decides the
  call (the second one when the first raised TypeError).
\<close>

definition http_result :: "http_answer \<Rightarrow> pyval \<times> string option" where
  "http_result a =
     (case a of
        Raises e \<Rightarrow> (PNone, Some (py_format ''NET {}'' [exn_text e]))
      | Response status body \<Rightarrow>
          if status \<noteq> 200 then (PNone, Some (py_format ''HTTP {}'' [str_int status]))
          else (case body of None \<Rightarrow> (PNone, Some ''Bad JSON'') | Some d \<Rightarrow> (d, None)))"

definition deciding_answer :: "env \<Rightarrow> string \<Rightarrow> world \<Rightarrow> http_answer" where
  "deciding_answer env url w =
     (if is_TypeError (urequests_get_at env (calls w) url)
      then urequests_get_at env (calls w + 1) url
      else urequests_get_at env (calls w) url)"

text \<open>
  The test \<^verbatim>\<open>err or not data\<close> that follows every call, and the error that
  \<^verbatim>\<open>err2 or err or "No data"\<close> picks.
\<close>

definition request_failed :: "pyval \<times> string option \<Rightarrow> bool" where
  "request_failed r = (str_truthy (snd r) \<or> \<not> py_truthy (fst r))"

definition first_error :: "string option list \<Rightarrow> string \<Rightarrow> string" where
  "first_error errs dflt = (case filter str_truthy errs of [] \<Rightarrow> dflt | e # es \<Rightarrow> opt_str e)"

subsection \<open>Geolocation\<close>

record geo =
  lat :: pyfloat
  lon :: pyfloat
  city :: pyval
  country :: pyval

text \<open>
  \<^verbatim>\<open>
      lat = data.get("lat")
      lon = data.get("lon")
      city = data.get("city")
      country = data.get("countryCode") or data.get("country")
      if not is_number(lat) or not is_number(lon):
          return None, "Missing lat/lon"
      geo = {"lat": float(lat), "lon": float(lon), "city": city, "country": country}
  \<close>
\<close>

definition geo_fields :: "pyval \<Rightarrow> exn + (geo option \<times> string option)" where
  "geo_fields data =
     bind_exn (attr_get data ''lat'' PNone) (\<lambda>lat_v.
     bind_exn (attr_get data ''lon'' PNone) (\<lambda>lon_v.
     bind_exn (attr_get data ''city'' PNone) (\<lambda>city_v.
     bind_exn (attr_get data ''countryCode'' PNone) (\<lambda>code_v.
     bind_exn (attr_get data ''country'' PNone) (\<lambda>country_v.
     if \<not> is_number lat_v \<or> \<not> is_number lon_v then Inr (None, Some ''Missing lat/lon'')
     else
       bind_exn (py_float lat_v) (\<lambda>la.
       bind_exn (py_float lon_v) (\<lambda>lo.
       Inr (Some \<lparr>lat = la, lon = lo, city = city_v, country = py_or code_v country_v\<rparr>,
            None))))))))"

text \<open>
  \<^verbatim>\<open>
  def get_geo_by_ip():
      data, err = http_get_json("http://ip-api.com/json/")
      if err or not data:
          log("Geo primary failed: {}".format(err))
          data2, err2 = http_get_json("http://208.95.112.1/json/")
          if err2 or not data2:
              return None, (err2 or err or "No data")
          data = data2
      ...
      log("GEO OK lat={} lon={} city={} country={}".format(geo["lat"], geo["lon"], city, country))
      return geo, None
  \<close>
\<close>

definition primary_url :: string where
  "primary_url = ''http://ip-api.com/json/''"

definition fallback_url :: string where
  "fallback_url = ''http://208.95.112.1/json/''"

definition geo_result ::
  "env \<Rightarrow> pyval \<Rightarrow> world \<Rightarrow> (exn + (geo option \<times> string option)) \<times> world" where
  "geo_result env data w =
     (case geo_fields data of
        Inl e \<Rightarrow> (Inl e, w)
      | Inr (None, err) \<Rightarrow> (Inr (None, err), w)
      | Inr (Some g, err) \<Rightarrow>
          (Inr (Some g, err),
           log_msg (py_format ''GEO OK lat={} lon={} city={} country={}''
                      [py_str env (PFloat (lat g)), py_str env (PFloat (lon g)),
                       py_str env (city g), py_str env (country g)]) w))"

definition get_geo_by_ip ::
  "env \<Rightarrow> world \<Rightarrow> (exn + (geo option \<times> string option)) \<times> world" where
  "get_geo_by_ip env w =
     (case http_get_json env primary_url w of
        ((data, err), w1) \<Rightarrow>
          if request_failed (data, err) then
            (case http_get_json env fallback_url
                    (log_msg (py_format ''Geo primary failed: {}'' [opt_str err]) w1) of
               ((data2, err2), w3) \<Rightarrow>
                 if request_failed (data2, err2)
                 then (Inr (None, Some (first_error [err2, err] ''No data'')), w3)
                 else geo_result env data2 w3)
          else geo_result env data w1)"

subsection \<open>Weather\<close>

record weather =
  temp :: pyfloat
  humidity :: "int option"
  pressure :: "int option"
  wind :: "pyfloat option"
  desc :: pyval

text \<open>
  \<^verbatim>\<open>
      desc = ""
      if isinstance(w_arr, list) and len(w_arr) > 0:
          desc = w_arr[0].get("description") or ""
  \<close>
\<close>

fun first_description :: "pyval \<Rightarrow> exn + pyval" where
  "first_description (PList (x # xs)) =
     bind_exn (attr_get x ''description'' PNone) (\<lambda>d. Inr (py_or d (PStr [])))"
| "first_description v = Inr (PStr [])"

text \<open>
  \<^verbatim>\<open>
      main = data.get("main", {})
      wind = data.get("wind", {})
      w_arr = data.get("weather", [])
      temp = main.get("temp")
      humidity = main.get("humidity")
      pressure = main.get("pressure")
      wind_speed = wind.get("speed")
      ... desc ...
      if not is_number(temp):
          return None, "Bad temp"
      weather = {
          "temp": float(temp),
          "humidity": int(humidity) if is_number(humidity) else None,
          "pressure": int(pressure) if is_number(pressure) else None,
          "wind": float(wind_speed) if is_number(wind_speed) else None,
          "desc": desc
      }
  \<close>
\<close>

definition int_if_number :: "pyval \<Rightarrow> exn + int option" where
  "int_if_number v = (if is_number v then bind_exn (py_int v) (\<lambda>i. Inr (Some i)) else Inr None)"

definition float_if_number :: "pyval \<Rightarrow> exn + pyfloat option" where
  "float_if_number v =
     (if is_number v then bind_exn (py_float v) (\<lambda>f. Inr (Some f)) else Inr None)"

definition weather_fields :: "pyval \<Rightarrow> exn + (weather option \<times> string option)" where
  "weather_fields data =
     bind_exn (attr_get data ''main'' (PDict [])) (\<lambda>main_v.
     bind_exn (attr_get data ''wind'' (PDict [])) (\<lambda>wind_v.
     bind_exn (attr_get data ''weather'' (PList [])) (\<lambda>w_arr.
     bind_exn (attr_get main_v ''temp'' PNone) (\<lambda>temp_v.
     bind_exn (attr_get main_v ''humidity'' PNone) (\<lambda>humidity_v.
     bind_exn (attr_get main_v ''pressure'' PNone) (\<lambda>pressure_v.
     bind_exn (attr_get wind_v ''speed'' PNone) (\<lambda>wind_speed.
     bind_exn (first_description w_arr) (\<lambda>desc_v.
     if \<not> is_number temp_v then Inr (None, Some ''Bad temp'')
     else
       bind_exn (py_float temp_v) (\<lambda>t.
       bind_exn (int_if_number humidity_v) (\<lambda>h.
       bind_exn (int_if_number pressure_v) (\<lambda>p.
       bind_exn (float_if_number wind_speed) (\<lambda>ws.
       Inr (Some \<lparr>temp = t, humidity = h, pressure = p, wind = ws, desc = desc_v\<rparr>,
            None)))))))))))))"

text \<open>
  \<^verbatim>\<open>
  def get_weather_openweathermap(api_key, lat, lon):
      url = ("https://api.openweathermap.org/data/2.5/weather"
             "?lat={}&lon={}&appid={}&units=metric&lang=cs").format(lat, lon, api_key)
      data, err = http_get_json(url)
      if err or not data:
          return None, err or "No data"
      ...
      log("WEATHER OK temp={} desc='{}'".format(weather["temp"], desc))
      return weather, None
  \<close>
\<close>

definition weather_url :: "env \<Rightarrow> string \<Rightarrow> pyfloat \<Rightarrow> pyfloat \<Rightarrow> string" where
  "weather_url env api_key la lo =
     py_format
       ''https://api.openweathermap.org/data/2.5/weather?lat={}&lon={}&appid={}&units=metric&lang=cs''
       [py_str env (PFloat la), py_str env (PFloat lo), api_key]"

definition get_weather_openweathermap ::
  "env \<Rightarrow> string \<Rightarrow> pyfloat \<Rightarrow> pyfloat \<Rightarrow> world
     \<Rightarrow> (exn + (weather option \<times> string option)) \<times> world" where
  "get_weather_openweathermap env api_key la lo w =
     (case http_get_json env (weather_url env api_key la lo) w of
        ((data, err), w1) \<Rightarrow>
          if request_failed (data, err)
          then (Inr (None, Some (first_error [err] ''No data'')), w1)
          else (case weather_fields data of
                  Inl e \<Rightarrow> (Inl e, w1)
                | Inr (None, werr) \<Rightarrow> (Inr (None, werr), w1)
                | Inr (Some s, werr) \<Rightarrow>
                    (Inr (Some s, werr),
                     log_msg (py_format (''WEATHER OK temp={} desc='' @ quoted ''{}'')
                                [py_str env (PFloat (temp s)), py_str env (desc s)]) w1)))"


section \<open>Display logic\<close>

text \<open>
  \<^verbatim>\<open>
  def show_coords(lcd, cols, lat, lon, seconds=3):
      try:
          lcd.clear()
          lcd_write_lines(lcd, cols, "Coords lat/lon",
                          "{} {}".format(round(lat, 4), round(lon, 4)))
          log("LCD: showed coords")
      except Exception as e:
          log("LCD show_coords failed: {}".format(e))
      utime.sleep(seconds)
  \<close>
\<close>

definition show_coords ::
  "env \<Rightarrow> lcd option \<Rightarrow> int \<Rightarrow> pyfloat \<Rightarrow> pyfloat \<Rightarrow> nat \<Rightarrow> world \<Rightarrow> world" where
  "show_coords env l cols la lo seconds w =
     (let line1 = py_format ''{} {}'' [py_str env (PFloat (py_round env la 4)),
                                       py_str env (PFloat (py_round env lo 4))];
          w1 = (case lcd_screen env l cols ''Coords lat/lon'' line1 w of
                  (Inr u, w') \<Rightarrow> log_msg ''LCD: showed coords'' w'
                | (Inl e, w') \<Rightarrow> log_msg (py_format ''LCD show_coords failed: {}'' [exn_text e]) w')
      in sleep seconds w1)"

text \<open>
  One screen of the weather cycle: the \<open>try\<close> block around \<open>lcd.clear()\<close> and
  \<open>lcd_write_lines\<close>, its handler that logs, and the dwell of two seconds.
\<close>

definition cycle_screen ::
  "env \<Rightarrow> lcd option \<Rightarrow> int \<Rightarrow> string \<Rightarrow> string \<Rightarrow> string \<Rightarrow> world \<Rightarrow> world" where
  "cycle_screen env l cols failed line0 line1 w =
     sleep 2 (case lcd_screen env l cols line0 line1 w of
                (Inr u, w') \<Rightarrow> w'
              | (Inl e, w') \<Rightarrow> log_msg (py_format failed [exn_text e]) w')"

text \<open>
  \<^verbatim>\<open>
  def get_time_string():
      t = utime.localtime()
      return "{:02d}:{:02d}:{:02d}".format(t[3], t[4], t[5])
  \<close>
\<close>

definition get_time_string :: "env \<Rightarrow> world \<Rightarrow> string" where
  "get_time_string env w =
     (case localtime_at env (clock w) of
        (h, m, s) \<Rightarrow> two_digits h @ '':'' @ two_digits m @ '':'' @ two_digits s)"

text \<open>
  \<^verbatim>\<open>
      city = geo.get("city") or "Unknown"
      country = geo.get("country") or ""
      loc = (city + " " + country).strip()
  \<close>
  \<open>+\<close> raises TypeError unless both are strings.
\<close>

definition location_line :: "geo \<Rightarrow> exn + string" where
  "location_line g =
     (case (py_or (city g) (PStr ''Unknown''), py_or (country g) (PStr [])) of
        (PStr a, PStr b) \<Rightarrow> Inr (py_strip (a @ '' '' @ b))
      | other \<Rightarrow> Inl (Exn TypeError []))"

text \<open>
  \<^verbatim>\<open>
  def show_weather_cycle(lcd, cols, geo, weather):
      ... loc ...
      temp = weather.get("temp")
      hum = weather.get("humidity")
      wind = weather.get("wind")
      pres = weather.get("pressure")
      desc = weather.get("desc") or ""
      (screen "Time" / time_str; sleep 2)
      (screen clamp_str(loc, cols) / "Temp: {}C".format(round(temp, 1)); sleep 2)
      (screen clamp_str(desc, cols) / hum_txt; sleep 2)
      (screen wind_txt / pres_txt; sleep 2)
  \<close>
\<close>

definition show_weather_cycle ::
  "env \<Rightarrow> lcd option \<Rightarrow> int \<Rightarrow> geo \<Rightarrow> weather \<Rightarrow> world \<Rightarrow> (exn + unit) \<times> world" where
  "show_weather_cycle env l cols g s w =
     (case location_line g of
        Inl e \<Rightarrow> (Inl e, w)
      | Inr loc \<Rightarrow>
          (let w1 = cycle_screen env l cols ''LCD weather time screen failed: {}''
                      ''Time'' (get_time_string env w) w;
               w2 = cycle_screen env l cols ''LCD weather screen1 failed: {}''
                      (clamp_str (Some loc) cols)
                      (py_format ''Temp: {}C'' [py_str env (PFloat (py_round env (temp s) 1))]) w1;
               hum_txt = (case humidity s of
                            None \<Rightarrow> ''Hum: --%''
                          | Some h \<Rightarrow> py_format ''Hum: {}%'' [str_int h]);
               w3 = cycle_screen env l cols ''LCD weather screen2 failed: {}''
                      (clamp_str (Some (py_str env (py_or (desc s) (PStr [])))) cols) hum_txt w2;
               wind_txt = (case wind s of
                             None \<Rightarrow> ''Wind: -- m/s''
                           | Some v \<Rightarrow>
                               py_format ''Wind: {} m/s'' [py_str env (PFloat (py_round env v 1))]);
               pres_txt = (case pressure s of
                             None \<Rightarrow> ''Pres: ----hPa''
                           | Some p \<Rightarrow> py_format ''Pres: {} hPa'' [str_int p])
           in (Inr (), cycle_screen env l cols ''LCD weather screen3 failed: {}''
                         wind_txt pres_txt w3)))"

section \<open>Main\<close>

record config =
  cfg_ssid :: string
  cfg_password :: string
  cfg_api_key :: string
  cfg_lcd :: "lcd option"
  cfg_cols :: int

subsection \<open>Geolocation after the first connection\<close>






subsection \<open>The polling loop\<close>

record loop_state =
  last_weather :: "weather option"
  next_fetch :: int
  heartbeat :: int

definition interval_ms :: int where
  "interval_ms = 10 * 60 * 1000"

text \<open>
  \<^verbatim>\<open>
              if werr or not w:
                  log("Weather fetch failed: {}".format(werr))
                  if last_weather and lcd:
                      try:
                          lcd.clear()
                          lcd_write_lines(lcd, cols, "API warn", "using cached")
                          utime.sleep(2)
                      except Exception as e:
                          log("LCD warn msg failed: {}".format(e))
                  else:
                      show_error(lcd, cols, werr or "Weather fail", seconds=2)
  \<close>
\<close>

definition fetch_failed ::
  "env \<Rightarrow> lcd option \<Rightarrow> int \<Rightarrow> weather option \<Rightarrow> string option \<Rightarrow> world \<Rightarrow> world" where
  "fetch_failed env l cols cached werr w =
     (let w1 = log_msg (py_format ''Weather fetch failed: {}'' [opt_str werr]) w
      in if cached \<noteq> None \<and> l \<noteq> None then
           (case lcd_screen env l cols ''API warn'' ''using cached'' w1 of
              (Inr u, w2) \<Rightarrow> sleep 2 w2
            | (Inl e, w2) \<Rightarrow> log_msg (py_format ''LCD warn msg failed: {}'' [exn_text e]) w2)
         else show_error env l cols (first_error [werr] ''Weather fail'') 2 w1)"

text \<open>
  \<^verbatim>\<open>
          if utime.ticks_diff(now, next_fetch) >= 0:
              log("Weather fetch start")
              w, werr = get_weather_openweathermap(api_key, geo["lat"], geo["lon"])
              if werr or not w:
                  ...
              else:
                  last_weather = w
              next_fetch = utime.ticks_add(now, interval_ms)
              log("Next fetch in 10min")
  \<close>
  \<open>fetch_due\<close> is the body of the \<open>if\<close> up to the assignment of \<open>next_fetch\<close>: the
  world it returns is the one in which the deadline is advanced.
\<close>

definition fetch_due ::
  "env \<Rightarrow> config \<Rightarrow> geo \<Rightarrow> loop_state \<Rightarrow> int \<Rightarrow> world \<Rightarrow> (exn + loop_state) \<times> world" where
  "fetch_due env cfg g st now w =
     (case get_weather_openweathermap env (cfg_api_key cfg) (lat g) (lon g)
             (log_msg ''Weather fetch start'' w) of
        (Inl e, w1) \<Rightarrow> (Inl e, w1)
      | (Inr (s, werr), w1) \<Rightarrow>
          if str_truthy werr \<or> s = None
          then (Inr (st\<lparr>next_fetch := ticks_add now interval_ms\<rparr>),
                fetch_failed env (cfg_lcd cfg) (cfg_cols cfg) (last_weather st) werr w1)
          else (Inr (st\<lparr>last_weather := s, next_fetch := ticks_add now interval_ms\<rparr>), w1))"

definition is_due :: "int \<Rightarrow> int \<Rightarrow> bool" where
  "is_due now deadline = (ticks_diff now deadline \<ge> 0)"

definition fetch_if_due ::
  "env \<Rightarrow> config \<Rightarrow> geo \<Rightarrow> loop_state \<Rightarrow> world \<Rightarrow> (exn + loop_state) \<times> world" where
  "fetch_if_due env cfg g st w =
     (let now = ticks_ms w
      in if is_due now (next_fetch st)
         then (case fetch_due env cfg g st now w of
                 (Inl e, w1) \<Rightarrow> (Inl e, w1)
               | (Inr st1, w1) \<Rightarrow> (Inr st1, log_msg ''Next fetch in 10min'' w1))
         else (Inr st, w))"

text \<open>
  \<^verbatim>\<open>
          if last_weather and lcd:
              show_weather_cycle(lcd, cols, geo, last_weather)
          else:
              heartbeat += 1
              log("Heartbeat {}".format(heartbeat))
              if lcd:
                  try:
                      lcd.clear()
                      lcd_write_lines(lcd, cols, "Running...", "HB {}".format(heartbeat))
                  except Exception as e:
                      log("LCD heartbeat failed: {}".format(e))
              utime.sleep(1)
          utime.sleep_ms(100)
  \<close>
\<close>

definition display_step ::
  "env \<Rightarrow> config \<Rightarrow> geo \<Rightarrow> loop_state \<Rightarrow> world \<Rightarrow> (exn + loop_state) \<times> world" where
  "display_step env cfg g st w =
     (case (last_weather st, cfg_lcd cfg) of
        (Some s, Some d) \<Rightarrow>
          (case show_weather_cycle env (cfg_lcd cfg) (cfg_cols cfg) g s w of
             (Inl e, w1) \<Rightarrow> (Inl e, w1)
           | (Inr u, w1) \<Rightarrow> (Inr st, w1))
      | other \<Rightarrow>
          (let hb = heartbeat st + 1;
               w1 = log_msg (py_format ''Heartbeat {}'' [str_int hb]) w;
               w2 = (if cfg_lcd cfg \<noteq> None then
                       (case lcd_screen env (cfg_lcd cfg) (cfg_cols cfg) ''Running...''
                               (py_format ''HB {}'' [str_int hb]) w1 of
                          (Inr u, w') \<Rightarrow> w'
                        | (Inl e, w') \<Rightarrow>
                            log_msg (py_format ''LCD heartbeat failed: {}'' [exn_text e]) w')
                     else w1)
           in (Inr (st\<lparr>heartbeat := hb\<rparr>), sleep 1 w2)))"

text \<open>One turn of the \<open>while True\<close> loop of \<open>main\<close>.\<close>

definition main_iteration ::
  "env \<Rightarrow> config \<Rightarrow> geo \<Rightarrow> loop_state \<Rightarrow> world \<Rightarrow> ((exn + loop_state) \<times> world) option" where
  "main_iteration env cfg g st w =
     (case wifi_ensure_connected env (cfg_ssid cfg) (cfg_password cfg) (cfg_lcd cfg) (cfg_cols cfg) w of
        None \<Rightarrow> None
      | Some (Inl e, w1) \<Rightarrow> Some (Inl e, w1)
      | Some (Inr b, w1) \<Rightarrow>
          (case fetch_if_due env cfg g st w1 of
             (Inl e, w2) \<Rightarrow> Some (Inl e, w2)
           | (Inr st1, w2) \<Rightarrow>
               (case display_step env cfg g st1 w2 of
                  (Inl e, w3) \<Rightarrow> Some (Inl e, w3)
                | (Inr st2, w3) \<Rightarrow> Some (Inr st2, sleep_ms 100 w3))))"


section \<open>Reading a trace\<close>

text \<open>The events that a run added to the trace.\<close>

definition events_since :: "world \<Rightarrow> world \<Rightarrow> event list" where
  "events_since w w' = drop (length (trace w)) (trace w')"

text \<open>
  The two requests of \<open>get_geo_by_ip\<close>: the one to the primary endpoint, and the
  one to the fallback endpoint as it is made after the primary one.
\<close>

definition primary_call :: "env \<Rightarrow> world \<Rightarrow> (pyval \<times> string option) \<times> world" where
  "primary_call env w = http_get_json env primary_url w"

definition fallback_call :: "env \<Rightarrow> world \<Rightarrow> (pyval \<times> string option) \<times> world" where
  "fallback_call env w =
     http_get_json env fallback_url
       (log_msg (py_format ''Geo primary failed: {}'' [opt_str (snd (fst (primary_call env w)))])
          (snd (primary_call env w)))"

text \<open>The radio commands and the sleeps of a trace, in order.\<close>

fun is_radio_event :: "event \<Rightarrow> bool" where
  "is_radio_event (Sleep n) = True"
| "is_radio_event (WlanActive b) = True"
| "is_radio_event (WlanConnect s p) = True"
| "is_radio_event WlanDisconnect = True"
| "is_radio_event e = False"

definition radio_view :: "event list \<Rightarrow> event list" where
  "radio_view evs = filter is_radio_event evs"

text \<open>
  The calls of \<open>get_geo_by_ip\<close> (each opens with the one request to the primary
  endpoint that passes \<open>timeout\<close>) and the sleeps of a trace, in order.
\<close>

fun is_sleep :: "event \<Rightarrow> bool" where
  "is_sleep (Sleep n) = True"
| "is_sleep e = False"

definition geo_view :: "event list \<Rightarrow> event list" where
  "geo_view evs = filter (\<lambda>e. e = HttpRequest primary_url True \<or> is_sleep e) evs"

text \<open>The name lookups of a trace, in order.\<close>

fun is_resolve :: "event \<Rightarrow> bool" where
  "is_resolve (Resolve h p) = True"
| "is_resolve e = False"

definition dns_view :: "event list \<Rightarrow> event list" where
  "dns_view evs = filter is_resolve evs"

text \<open>
  The world in which the wait of \<open>wifi_connect\<close> starts, when the call finds the
  interface not connected: the radio is on and \<open>connect\<close> has been called.
\<close>

definition wifi_entered :: "string \<Rightarrow> string \<Rightarrow> world \<Rightarrow> world" where
  "wifi_entered ssid password w =
     wifi_start ssid password
       ((if \<not> radio_on w then wlan_active_set True w else w)
          \<lparr>calls := calls (if \<not> radio_on w then wlan_active_set True w else w) + 1\<rparr>)"


text \<open>The display driver calls of a trace, in order.\<close>

fun is_lcd_event :: "event \<Rightarrow> bool" where
  "is_lcd_event LcdClear = True"
| "is_lcd_event (LcdSetCursor c r) = True"
| "is_lcd_event (LcdWrite s) = True"
| "is_lcd_event e = False"

definition lcd_view :: "event list \<Rightarrow> event list" where
  "lcd_view evs = filter is_lcd_event evs"

subsection \<open>Two surroundings to run the program in\<close>

text \<open>
  \<open>env_down\<close>: the access point never answers, every request and every lookup
  raises OSError, the display driver works. \<open>env_up\<close>: the interface is connected
  and every request is answered with status 200 and the body \<open>body\<close>.
\<close>

definition env_down :: env where
  "env_down =
     \<lparr>isconnected_at = (\<lambda>n. False),
      ifconfig_at = (\<lambda>n. Inl (Exn OSError ''down'')),
      getaddrinfo_at = (\<lambda>n h p. Inl (Exn OSError ''-2'')),
      lcd_at = (\<lambda>n. None),
      urequests_get_at = (\<lambda>n u. Raises (Exn OSError ''ECONNABORTED'')),
      http_ms = (\<lambda>n. 0),
      localtime_at = (\<lambda>c. (0, 0, 0)),
      py_round = (\<lambda>f n. f),
      repr = (\<lambda>v. ''?'')\<rparr>"

definition env_up :: "pyval \<Rightarrow> env" where
  "env_up body =
     \<lparr>isconnected_at = (\<lambda>n. True),
      ifconfig_at = (\<lambda>n. Inr (''192.168.1.7'', ''255.255.255.0'', ''192.168.1.1'', ''8.8.8.8'')),
      getaddrinfo_at = (\<lambda>n h p. Inl (Exn OSError ''-2'')),
      lcd_at = (\<lambda>n. None),
      urequests_get_at = (\<lambda>n u. Response 200 (Some body)),
      http_ms = (\<lambda>n. 0),
      localtime_at = (\<lambda>c. (0, 0, 0)),
      py_round = (\<lambda>f n. f),
      repr = (\<lambda>v. ''?'')\<rparr>"

text \<open>\<open>env_joining\<close>: the interface is not connected at first and is from then on.\<close>

definition env_joining :: env where
  "env_joining = (env_up PNone)\<lparr>isconnected_at := (\<lambda>n. 0 < n)\<rparr>"

definition world0 :: world where
  "world0 = \<lparr>clock = 0, calls = 0, radio_on = True, trace = []\<rparr>"

definition cfg0 :: config where
  "cfg0 = \<lparr>cfg_ssid = ''home'', cfg_password = ''secret'', cfg_api_key = ''k'',
           cfg_lcd = Some Lcd_i2c, cfg_cols = 16\<rparr>"

definition cfg_headless :: config where
  "cfg_headless = cfg0\<lparr>cfg_lcd := None\<rparr>"

definition geo0 :: geo where
  "geo0 = \<lparr>lat = Fin (1252 / 25), lon = Fin (1443 / 100), city = PStr ''Praha'', country = PStr ''CZ''\<rparr>"

definition weather0 :: weather where
  "weather0 = \<lparr>temp = Fin (237 / 10), humidity = Some 55, pressure = Some 1013,
               wind = Some (Fin (31 / 10)), desc = PStr ''jasno''\<rparr>"


definition loop0 :: loop_state where
  "loop0 = \<lparr>last_weather = None, next_fetch = 0, heartbeat = 0\<rparr>"

definition loop_cached :: loop_state where
  "loop_cached = \<lparr>last_weather = Some weather0, next_fetch = 0, heartbeat = 0\<rparr>"

text \<open>
  How far the deadline lies ahead of the tick counter, in the state and the world that
  a step of the loop returns; \<open>None\<close> when an exception left the loop.
\<close>

definition deadline_lead :: "(exn + loop_state) \<times> world \<Rightarrow> int option" where
  "deadline_lead r =
     (case r of
        (Inl e, w) \<Rightarrow> None
      | (Inr st, w) \<Rightarrow> Some (ticks_diff (next_fetch st) (ticks_ms w)))"

text \<open>The world in which \<open>get_weather_openweathermap\<close> returns during \<open>fetch_due\<close>.\<close>

definition fetch_call ::
  "env \<Rightarrow> config \<Rightarrow> geo \<Rightarrow> world \<Rightarrow> (exn + (weather option \<times> string option)) \<times> world" where
  "fetch_call env cfg g w =
     get_weather_openweathermap env (cfg_api_key cfg) (lat g) (lon g)
       (log_msg ''Weather fetch start'' w)"


section \<open>Basic facts about the effects\<close>

lemma log_msg_fields [simp]:
  "clock (log_msg m w) = clock w" "calls (log_msg m w) = calls w"
  "radio_on (log_msg m w) = radio_on w" "trace (log_msg m w) = trace w @ [Log m]"
  by (simp_all add: log_msg_def)

lemma sleep_ms_fields [simp]:
  "clock (sleep_ms n w) = clock w + n" "calls (sleep_ms n w) = calls w"
  "radio_on (sleep_ms n w) = radio_on w" "trace (sleep_ms n w) = trace w @ [Sleep n]"
  by (simp_all add: sleep_ms_def)

lemma sleep_fields [simp]:
  "clock (sleep s w) = clock w + 1000 * s" "calls (sleep s w) = calls w"
  "radio_on (sleep s w) = radio_on w" "trace (sleep s w) = trace w @ [Sleep (1000 * s)]"
  by (simp_all add: sleep_def)

lemma wlan_active_set_fields [simp]:
  "clock (wlan_active_set b w) = clock w" "calls (wlan_active_set b w) = calls w"
  "radio_on (wlan_active_set b w) = b" "trace (wlan_active_set b w) = trace w @ [WlanActive b]"
  by (simp_all add: wlan_active_set_def)

lemma wlan_connect_fields [simp]:
  "clock (wlan_connect s p w) = clock w" "calls (wlan_connect s p w) = calls w"
  "radio_on (wlan_connect s p w) = radio_on w"
  "trace (wlan_connect s p w) = trace w @ [WlanConnect s p]"
  by (simp_all add: wlan_connect_def)

lemma wlan_disconnect_fields [simp]:
  "clock (wlan_disconnect w) = clock w" "calls (wlan_disconnect w) = calls w"
  "radio_on (wlan_disconnect w) = radio_on w"
  "trace (wlan_disconnect w) = trace w @ [WlanDisconnect]"
  by (simp_all add: wlan_disconnect_def)

lemma ticks_ms_clock: "clock w' = clock w \<Longrightarrow> ticks_ms w' = ticks_ms w"
  by (simp add: ticks_ms_def)

lemma radio_view_append [simp]: "radio_view (xs @ ys) = radio_view xs @ radio_view ys"
  by (simp add: radio_view_def)

lemma radio_view_Nil [simp]: "radio_view [] = []"
  by (simp add: radio_view_def)

lemma radio_view_Cons [simp]:
  "radio_view (e # es) = (if is_radio_event e then e # radio_view es else radio_view es)"
  by (simp add: radio_view_def)

subsection \<open>The tick counter\<close>

lemma ticks_mod_shift:
  fixes x y :: int
  shows "((x + y) mod 1073741824 - x mod 1073741824 + 536870912) mod 1073741824
        = (y + 536870912) mod 1073741824"
proof -
  have "((x + y) mod 1073741824 - x mod 1073741824) mod 1073741824
        = ((x + y) - x) mod 1073741824"
    by (rule mod_diff_cong) simp_all
  then have "((x + y) mod 1073741824 - x mod 1073741824 + 536870912) mod 1073741824
        = ((x + y) - x + 536870912) mod 1073741824"
    by (rule mod_add_cong) simp
  then show ?thesis by simp
qed

lemma ticks_diff_elapsed:
  assumes "d < 536870912"
  shows "ticks_diff (ticks_of (c + d)) (ticks_of c) = int d"
proof -
  have "(int (c + d) mod 1073741824 - int c mod 1073741824 + 536870912) mod 1073741824
        = (int d + 536870912) mod (1073741824 :: int)"
    using ticks_mod_shift [of "int c" "int d"] by simp
  also have "\<dots> = int d + 536870912"
    using assms by simp
  finally show ?thesis
    by (simp add: ticks_diff_def ticks_of_def TICKS_PERIOD_def)
qed

subsection \<open>The display driver\<close>

lemma lcd_call_frame:
  "clock (snd (lcd_call env l ev w)) = clock w
   \<and> radio_on (snd (lcd_call env l ev w)) = radio_on w
   \<and> radio_view (trace (snd (lcd_call env l ev w))) = radio_view (trace w) @ 
        (if is_radio_event ev \<and> fst (lcd_call env l ev w) = Inr () then [ev] else [])"
  by (simp add: lcd_call_def split: option.splits)


section \<open>HTTP requests\<close>

lemma http_get_json_result:
  "fst (http_get_json env url w) = http_result (deciding_answer env url w)"
proof (cases "is_TypeError (urequests_get_at env (calls w) url)")
  case True
  then show ?thesis
    by (simp add: http_get_json_def urequests_get_def deciding_answer_def http_result_def Let_def
             split: http_answer.splits option.splits)
next
  case False
  then show ?thesis
    by (simp add: http_get_json_def urequests_get_def deciding_answer_def http_result_def Let_def
             split: http_answer.splits option.splits)
qed

lemma http_get_json_ok:
  assumes "urequests_get_at env (calls w) url = Response 200 (Some body)"
  shows "fst (http_get_json env url w) = (body, None)"
  using assms
  by (simp add: http_get_json_result deciding_answer_def http_result_def is_TypeError_def)

lemma http_get_json_raises:
  assumes "urequests_get_at env (calls w) url = Raises e" and "exn_kind_of e \<noteq> TypeError"
  shows "fst (http_get_json env url w) = (PNone, Some (''NET '' @ exn_text e))"
  using assms
  by (simp add: http_get_json_result deciding_answer_def http_result_def is_TypeError_def)

text \<open>
  Whatever the network does, a call ends in one of four ways: a decoded body and no
  error, or no body and one of the three kinds of error string.
\<close>

lemma http_result_cases:
  "(\<exists>body. http_result a = (body, None))
   \<or> http_result a = (PNone, Some ''Bad JSON'')
   \<or> (\<exists>status. http_result a = (PNone, Some (''HTTP '' @ str_int status)))
   \<or> (\<exists>msg. http_result a = (PNone, Some (''NET '' @ msg)))"
  by (cases a) (auto simp: http_result_def split: option.splits)

lemma count_list_append_eq [simp]:
  "count_list (xs @ ys) x = count_list xs x + count_list ys x"
  by (induction xs) simp_all

text \<open>Every call issues exactly one request that passes \<open>timeout\<close>, to its own URL.\<close>

lemma http_get_json_trace:
  "\<exists>evs. trace (snd (http_get_json env url w)) = trace w @ evs
         \<and> count_list evs (HttpRequest u True) = (if u = url then 1 else 0)
         \<and> filter is_sleep evs = []"
proof (cases "is_TypeError (urequests_get_at env (calls w) url)")
  case True
  then show ?thesis
    by (cases "urequests_get_at env (Suc (calls w)) url")
       (simp_all add: http_get_json_def urequests_get_def Let_def split: option.splits)
next
  case False
  then show ?thesis
    by (cases "urequests_get_at env (calls w) url")
       (simp_all add: http_get_json_def urequests_get_def Let_def split: option.splits)
qed


section \<open>The display padding function\<close>

lemma pad_right_long:
  "n < length t \<Longrightarrow> pad_right (Some t) (int n) = take n t"
  by (simp add: pad_right_def py_slice_to_def)

lemma pad_right_short:
  "length t \<le> n \<Longrightarrow> pad_right (Some t) (int n) = t @ replicate (n - length t) (CHR '' '')"
  by (simp add: pad_right_def py_spaces_def nat_diff_distrib')

lemma pad_right_None: "pad_right None (int n) = replicate n (CHR '' '')"
  by (simp add: pad_right_def py_spaces_def)

text \<open>
  C3. For every input \<open>s\<close> (\<open>None\<close>, the empty string, a string longer than the width)
  and every column count \<open>cols\<close>, \<open>pad_right\<close> returns a string of exactly \<open>cols\<close>
  characters: the first \<open>cols\<close> characters of \<open>s\<close> when \<open>s\<close> is longer, otherwise \<open>s\<close>
  followed by spaces; with 16 columns, "Temp: 23.7C testing" gives "Temp: 23.7C test".
\<close>

theorem pad_right_exact_width:
  "length (pad_right s (int cols)) = cols
   \<and> pad_right None (int cols) = replicate cols (CHR '' '')
   \<and> pad_right (Some t) (int cols) =
       (if cols < length t then take cols t else t @ replicate (cols - length t) (CHR '' ''))
   \<and> pad_right (Some ''Temp: 23.7C testing'') 16 = ''Temp: 23.7C test''"
proof -
  have len: "length (pad_right s (int cols)) = cols"
  proof (cases s)
    case None
    then show ?thesis by (simp add: pad_right_None)
  next
    case (Some u)
    then show ?thesis
      by (cases "cols < length u") (simp_all add: pad_right_long pad_right_short)
  qed
  have ex: "pad_right (Some ''Temp: 23.7C testing'') 16 = ''Temp: 23.7C test''"
    using pad_right_long [of 16 "''Temp: 23.7C testing''"] by simp
  show ?thesis
    using len ex by (simp add: pad_right_None pad_right_long pad_right_short)
qed

theorem pad_right_exact_width_witness:
  "length (pad_right (Some ''Running...'') 16) = 16
   \<and> pad_right (Some ''Running...'') 16 = ''Running...      ''
   \<and> pad_right (Some []) 3 = ''   ''"
  using pad_right_exact_width [of "Some ''Running...''" 16 "''Running...''"]
        pad_right_exact_width [of "Some []" 3 "[]"]
  by (simp add: eval_nat_numeral)


section \<open>The weather resolver\<close>

lemma trunc_rat_toward_zero:
  "\<bar>of_int (trunc_rat r)\<bar> \<le> \<bar>r\<bar> \<and> \<bar>r - of_int (trunc_rat r)\<bar> < 1"
proof (cases "0 \<le> r")
  case True
  then have "0 \<le> \<lfloor>r\<rfloor>" by simp
  then show ?thesis
    using True by (simp add: trunc_rat_def) linarith
next
  case False
  then have "\<lceil>r\<rceil> \<le> 0" by (simp add: ceiling_le_zero)
  then show ?thesis
    using False by (simp add: trunc_rat_def) linarith
qed

lemma int_if_number_float: "int_if_number (PFloat (Fin r)) = Inr (Some (trunc_rat r))"
  by (simp add: int_if_number_def is_number_def bind_exn_def)

lemma int_if_number_None: "int_if_number PNone = Inr None"
  by (simp add: int_if_number_def is_number_def)

lemma float_if_number_eq:
  "float_if_number v = Inr (case py_float v of Inl e \<Rightarrow> None | Inr f \<Rightarrow> Some f)"
  by (simp add: float_if_number_def is_number_def bind_exn_def split: sum.splits)

text \<open>
  What the function computes from a response that is an object whose \<open>main\<close> and
  \<open>wind\<close> are objects (or absent) and whose \<open>weather\<close> gives a description.
\<close>

lemma weather_fields_dict:
  assumes "lookup_or d ''main'' (PDict []) = PDict m"
      and "lookup_or d ''wind'' (PDict []) = PDict wd"
      and "first_description (lookup_or d ''weather'' (PList [])) = Inr ds"
  shows "weather_fields (PDict d) =
           (case py_float (lookup_or m ''temp'' PNone) of
              Inl e \<Rightarrow> Inr (None, Some ''Bad temp'')
            | Inr t \<Rightarrow>
                bind_exn (int_if_number (lookup_or m ''humidity'' PNone)) (\<lambda>h.
                bind_exn (int_if_number (lookup_or m ''pressure'' PNone)) (\<lambda>p.
                Inr (Some \<lparr>temp = t, humidity = h, pressure = p,
                           wind = (case py_float (lookup_or wd ''speed'' PNone) of
                                     Inl e \<Rightarrow> None | Inr f \<Rightarrow> Some f),
                           desc = ds\<rparr>, None))))"
  using assms
  by (simp add: weather_fields_def bind_exn_def is_number_def float_if_number_eq
           split: sum.splits)

lemma get_weather_value:
  assumes "fst (http_get_json env (weather_url env api_key la lo) w) = (PDict d, None)"
      and "d \<noteq> []"
  shows "fst (get_weather_openweathermap env api_key la lo w) = weather_fields (PDict d)"
proof -
  obtain w1 where "http_get_json env (weather_url env api_key la lo) w = ((PDict d, None), w1)"
    using assms(1) by (cases "http_get_json env (weather_url env api_key la lo) w") auto
  then show ?thesis
    using assms(2)
    by (simp add: get_weather_openweathermap_def request_failed_def str_truthy_def
             split: sum.splits option.splits prod.splits)
qed

text \<open>
  On a response that is an object whose \<open>main\<close> and \<open>wind\<close> are objects, whose
  description can be read and whose pressure \<open>int()\<close> accepts when it passes the
  is-number check, a humidity that is missing (or not a number) gives a sample with
  humidity \<open>None\<close> and the other fields populated. Each optional field that is
  missing or fails the is-number check becomes \<open>None\<close> on its own, and a response
  whose temperature fails the check gives the error "Bad temp" and no sample.
\<close>

lemma weather_sample_without_humidity:
  assumes "fst (http_get_json env (weather_url env api_key la lo) w) = (PDict d, None)"
      and "d \<noteq> []"
      and "lookup_or d ''main'' (PDict []) = PDict m"
      and "lookup_or d ''wind'' (PDict []) = PDict wd"
      and "first_description (lookup_or d ''weather'' (PList [])) = Inr ds"
      and "\<not> is_number (lookup_or m ''humidity'' PNone)"
      and "int_if_number (lookup_or m ''pressure'' PNone) = Inr p"
  shows "fst (get_weather_openweathermap env api_key la lo w) =
           (case py_float (lookup_or m ''temp'' PNone) of
              Inl e \<Rightarrow> Inr (None, Some ''Bad temp'')
            | Inr t \<Rightarrow>
                Inr (Some \<lparr>temp = t, humidity = None, pressure = p,
                           wind = (case py_float (lookup_or wd ''speed'' PNone) of
                                     Inl e \<Rightarrow> None | Inr f \<Rightarrow> Some f),
                           desc = ds\<rparr>, None))
         \<and> (map_of m ''humidity'' = None \<longrightarrow> lookup_or m ''humidity'' PNone = PNone)
         \<and> \<not> is_number PNone
         \<and> (\<not> is_number v \<longrightarrow> int_if_number v = Inr None \<and> float_if_number v = Inr None)
         \<and> first_description (PList []) = Inr (PStr [])"
proof -
  have "fst (get_weather_openweathermap env api_key la lo w) = weather_fields (PDict d)"
    using assms(1,2) by (rule get_weather_value)
  moreover have "int_if_number (lookup_or m ''humidity'' PNone) = Inr None"
    using assms(6) by (simp add: int_if_number_def)
  ultimately show ?thesis
    using assms(7)
    by (simp add: weather_fields_dict [OF assms(3,4,5)] bind_exn_def lookup_or_def
          is_number_def int_if_number_def float_if_number_def split: sum.splits)
qed

lemma weather_sample_without_humidity_example:
  "fst (get_weather_openweathermap
          (env_up (PDict [(''main'', PDict [(''temp'', PFloat (Fin (43 / 2))),
                                           (''pressure'', PInt 1013)]),
                          (''wind'', PDict [(''speed'', PFloat (Fin (31 / 10)))]),
                          (''weather'', PList [PDict [(''description'', PStr ''jasno'')]])]))
          ''k'' (Fin 50) (Fin 14) world0)
     = Inr (Some \<lparr>temp = Fin (43 / 2), humidity = None, pressure = Some 1013,
                  wind = Some (Fin (31 / 10)), desc = PStr ''jasno''\<rparr>, None)"
proof -
  let ?m = "[(''temp'', PFloat (Fin (43 / 2))), (''pressure'', PInt 1013)]"
  let ?wd = "[(''speed'', PFloat (Fin (31 / 10)))]"
  let ?d = "[(''main'', PDict ?m), (''wind'', PDict ?wd),
             (''weather'', PList [PDict [(''description'', PStr ''jasno'')]])]"
  have h1: "fst (http_get_json (env_up (PDict ?d))
                   (weather_url (env_up (PDict ?d)) ''k'' (Fin 50) (Fin 14)) world0)
            = (PDict ?d, None)"
    by (rule http_get_json_ok) (simp add: env_up_def)
  have h2: "?d \<noteq> []" by simp
  have h3: "lookup_or ?d ''main'' (PDict []) = PDict ?m" by (simp add: lookup_or_def)
  have h4: "lookup_or ?d ''wind'' (PDict []) = PDict ?wd" by (simp add: lookup_or_def)
  have h5: "first_description (lookup_or ?d ''weather'' (PList [])) = Inr (PStr ''jasno'')"
    by (simp add: lookup_or_def bind_exn_def py_or_def)
  have h6: "\<not> is_number (lookup_or ?m ''humidity'' PNone)"
    by (simp add: lookup_or_def is_number_def)
  have h7: "int_if_number (lookup_or ?m ''pressure'' PNone) = Inr (Some 1013)"
    by (simp add: lookup_or_def int_if_number_def is_number_def bind_exn_def)
  show ?thesis
    using weather_sample_without_humidity [OF h1 h2 h3 h4 h5 h6 h7]
    by (simp add: lookup_or_def)
qed

text \<open>
  When the humidity or the pressure of such a response is a JSON number with a
  fractional part, the sample holds it coerced by \<open>int()\<close>: truncated toward zero
  (55.7 becomes 55, -55.7 becomes -55). The temperature and the wind speed are coerced
  by \<open>float()\<close>, which leaves a float as it is.
\<close>

lemma weather_sample_truncates_floats:
  assumes "fst (http_get_json env (weather_url env api_key la lo) w) = (PDict d, None)"
      and "d \<noteq> []"
      and "lookup_or d ''main'' (PDict []) = PDict m"
      and "lookup_or d ''wind'' (PDict []) = PDict wd"
      and "first_description (lookup_or d ''weather'' (PList [])) = Inr ds"
      and "lookup_or m ''temp'' PNone = PFloat t"
      and "lookup_or wd ''speed'' PNone = PFloat s"
  shows "(lookup_or m ''humidity'' PNone = PFloat (Fin h)
            \<and> int_if_number (lookup_or m ''pressure'' PNone) = Inr p' \<longrightarrow>
          fst (get_weather_openweathermap env api_key la lo w) =
            Inr (Some \<lparr>temp = t, humidity = Some (trunc_rat h), pressure = p',
                       wind = Some s, desc = ds\<rparr>, None))
         \<and> (lookup_or m ''pressure'' PNone = PFloat (Fin p)
            \<and> int_if_number (lookup_or m ''humidity'' PNone) = Inr h' \<longrightarrow>
          fst (get_weather_openweathermap env api_key la lo w) =
            Inr (Some \<lparr>temp = t, humidity = h', pressure = Some (trunc_rat p),
                       wind = Some s, desc = ds\<rparr>, None))
         \<and> \<bar>of_int (trunc_rat r)\<bar> \<le> \<bar>r\<bar> \<and> \<bar>r - of_int (trunc_rat r)\<bar> < 1
         \<and> trunc_rat (557 / 10) = 55 \<and> trunc_rat (- 557 / 10) = - 55"
proof -
  have val: "fst (get_weather_openweathermap env api_key la lo w) = weather_fields (PDict d)"
    using assms(1,2) by (rule get_weather_value)
  have ex: "trunc_rat (557 / 10) = 55 \<and> trunc_rat (- 557 / 10) = - 55"
    by (simp add: trunc_rat_def floor_unique ceiling_unique)
  show ?thesis
    using trunc_rat_toward_zero [of r] ex assms(6,7)
    by (simp add: val weather_fields_dict [OF assms(3,4,5)] bind_exn_def int_if_number_float)
qed

lemma weather_sample_truncates_floats_example:
  "fst (get_weather_openweathermap
          (env_up (PDict [(''main'', PDict [(''temp'', PFloat (Fin (237 / 10))),
                                           (''humidity'', PFloat (Fin (557 / 10))),
                                           (''pressure'', PFloat (Fin (4053 / 4)))]),
                          (''wind'', PDict [(''speed'', PFloat (Fin (31 / 10)))])]))
          ''k'' (Fin 50) (Fin 14) world0)
     = Inr (Some \<lparr>temp = Fin (237 / 10), humidity = Some 55, pressure = Some 1013,
                  wind = Some (Fin (31 / 10)), desc = PStr []\<rparr>, None)"
proof -
  let ?m = "[(''temp'', PFloat (Fin (237 / 10))), (''humidity'', PFloat (Fin (557 / 10))),
             (''pressure'', PFloat (Fin (4053 / 4)))]"
  let ?wd = "[(''speed'', PFloat (Fin (31 / 10)))]"
  let ?d = "[(''main'', PDict ?m), (''wind'', PDict ?wd)]"
  have h1: "fst (http_get_json (env_up (PDict ?d))
                   (weather_url (env_up (PDict ?d)) ''k'' (Fin 50) (Fin 14)) world0)
            = (PDict ?d, None)"
    by (rule http_get_json_ok) (simp add: env_up_def)
  have h2: "?d \<noteq> []" by simp
  have h3: "lookup_or ?d ''main'' (PDict []) = PDict ?m" by (simp add: lookup_or_def)
  have h4: "lookup_or ?d ''wind'' (PDict []) = PDict ?wd" by (simp add: lookup_or_def)
  have h5: "first_description (lookup_or ?d ''weather'' (PList [])) = Inr (PStr [])"
    by (simp add: lookup_or_def)
  have h6: "lookup_or ?m ''temp'' PNone = PFloat (Fin (237 / 10))" by (simp add: lookup_or_def)
  have h7: "lookup_or ?wd ''speed'' PNone = PFloat (Fin (31 / 10))" by (simp add: lookup_or_def)
  have t1: "trunc_rat (557 / 10) = 55"
    by (simp add: trunc_rat_def floor_unique)
  have t2: "trunc_rat (4053 / 4) = 1013"
    by (simp add: trunc_rat_def floor_unique)
  show ?thesis
    using weather_sample_truncates_floats [OF h1 h2 h3 h4 h5 h6 h7,
            of "557 / 10" "Some 1013" "4053 / 4" "Some 55" 0]
    by (simp add: lookup_or_def int_if_number_float t1 t2)
qed

subsection \<open>Numbers written as strings\<close>

text \<open>
  \<open>is_number\<close> asks \<open>float()\<close>, which reads a decimal point in a string; the
  coercion of humidity and pressure is \<open>int()\<close>, which does not.
\<close>

lemma float_of_str_1013_5: "float_of_str ''1013.5'' = Some (Fin (2027 / 2))"
proof -
  have strip: "py_strip ''1013.5'' = ''1013.5''"
    by (simp add: py_strip_def is_space_def)
  have dec: "parse_decimal ''1013.5'' = Some (2027 / 2)"
    by (simp add: parse_decimal_def is_digit_def digits_val_def scale10_def)
  show ?thesis
    by (simp add: float_of_str_def strip dec lower_def)
qed

lemma int_of_str_1013_5: "int_of_str ''1013.5'' = None"
  by (simp add: int_of_str_def py_strip_def is_space_def is_digit_def)

lemma float_of_str_55_7: "float_of_str ''55.7'' = Some (Fin (557 / 10))"
proof -
  have strip: "py_strip ''55.7'' = ''55.7''"
    by (simp add: py_strip_def is_space_def)
  have dec: "parse_decimal ''55.7'' = Some (557 / 10)"
    by (simp add: parse_decimal_def is_digit_def digits_val_def scale10_def)
  show ?thesis
    by (simp add: float_of_str_def strip dec lower_def)
qed

lemma int_of_str_55_7: "int_of_str ''55.7'' = None"
  by (simp add: int_of_str_def py_strip_def is_space_def is_digit_def)

lemma get_weather_up:
  assumes "d \<noteq> []"
  shows "fst (get_weather_openweathermap (env_up (PDict d)) api_key la lo w) = weather_fields (PDict d)"
proof -
  have "fst (http_get_json (env_up (PDict d)) (weather_url (env_up (PDict d)) api_key la lo) w)
          = (PDict d, None)"
    by (rule http_get_json_ok) (simp add: env_up_def)
  then show ?thesis
    using assms by (rule get_weather_value)
qed

text \<open>
  C4. The code breaks the claim. A response with a numeric temperature and no
  humidity should give a sample with humidity \<open>None\<close> and the other fields
  populated or defaulted. When its pressure is the string "1013.5", the is-number check
  passes (\<open>float("1013.5")\<close> succeeds) and \<open>int("1013.5")\<close> raises ValueError, which
  \<open>get_weather_openweathermap\<close> does not catch: no sample is returned. The same
  happens with AttributeError when \<open>wind\<close> is \<open>null\<close> (the default of
  \<open>data.get("wind", {})\<close> applies to a missing key only) and when the first element
  of \<open>weather\<close> is not an object.
\<close>

theorem get_weather_raises_without_humidity:
  "is_number (PStr ''1013.5'')
   \<and> py_int (PStr ''1013.5'') = Inl (Exn ValueError [])
   \<and> fst (get_weather_openweathermap
            (env_up (PDict [(''main'', PDict [(''temp'', PFloat (Fin (43 / 2))),
                                             (''pressure'', PStr ''1013.5'')])]))
            ''k'' (Fin 50) (Fin 14) world0)
       = Inl (Exn ValueError [])
   \<and> fst (get_weather_openweathermap
            (env_up (PDict [(''main'', PDict [(''temp'', PFloat (Fin (43 / 2)))]),
                            (''wind'', PNone)]))
            ''k'' (Fin 50) (Fin 14) world0)
       = Inl (Exn AttributeError [])
   \<and> fst (get_weather_openweathermap
            (env_up (PDict [(''main'', PDict [(''temp'', PFloat (Fin (43 / 2)))]),
                            (''weather'', PList [PStr ''rain''])]))
            ''k'' (Fin 50) (Fin 14) world0)
       = Inl (Exn AttributeError [])"
proof -
  have n: "is_number (PStr ''1013.5'')"
    by (simp add: is_number_def float_of_str_1013_5)
  have i: "py_int (PStr ''1013.5'') = Inl (Exn ValueError [])"
    by (simp add: int_of_str_1013_5)
  have a: "weather_fields (PDict [(''main'', PDict [(''temp'', PFloat (Fin (43 / 2))),
                                                    (''pressure'', PStr ''1013.5'')])])
             = Inl (Exn ValueError [])"
    by (simp add: weather_fields_def bind_exn_def lookup_or_def is_number_def int_if_number_def
          float_of_str_1013_5 int_of_str_1013_5)
  have b: "weather_fields (PDict [(''main'', PDict [(''temp'', PFloat (Fin (43 / 2)))]),
                                  (''wind'', PNone)])
             = Inl (Exn AttributeError [])"
    by (simp add: weather_fields_def bind_exn_def lookup_or_def)
  have c: "weather_fields (PDict [(''main'', PDict [(''temp'', PFloat (Fin (43 / 2)))]),
                                  (''weather'', PList [PStr ''rain''])])
             = Inl (Exn AttributeError [])"
    by (simp add: weather_fields_def bind_exn_def lookup_or_def)
  show ?thesis
    using n i a b c by (simp add: get_weather_up)
qed

text \<open>
  C10. The code breaks the claim on a humidity (or pressure) with a fractional part
  that arrives as a string. The number 55.7 is coerced to 55, as the claim says; the
  string "55.7" passes the same is-number check, and \<open>int("55.7")\<close> raises
  ValueError instead of giving 55, so no sample is returned.
\<close>

theorem get_weather_raises_on_fraction_string:
  "is_number (PStr ''55.7'')
   \<and> py_float (PStr ''55.7'') = Inr (Fin (557 / 10))
   \<and> py_int (PStr ''55.7'') = Inl (Exn ValueError [])
   \<and> py_int (PFloat (Fin (557 / 10))) = Inr 55
   \<and> fst (get_weather_openweathermap
            (env_up (PDict [(''main'', PDict [(''temp'', PFloat (Fin (237 / 10))),
                                             (''humidity'', PStr ''55.7'')])]))
            ''k'' (Fin 50) (Fin 14) world0)
       = Inl (Exn ValueError [])
   \<and> fst (get_weather_openweathermap
            (env_up (PDict [(''main'', PDict [(''temp'', PFloat (Fin (237 / 10))),
                                             (''humidity'', PFloat (Fin (557 / 10)))])]))
            ''k'' (Fin 50) (Fin 14) world0)
       = Inr (Some \<lparr>temp = Fin (237 / 10), humidity = Some 55, pressure = None,
                      wind = None, desc = PStr []\<rparr>, None)"
proof -
  have n: "is_number (PStr ''55.7'')" "py_float (PStr ''55.7'') = Inr (Fin (557 / 10))"
    by (simp_all add: is_number_def float_of_str_55_7)
  have i: "py_int (PStr ''55.7'') = Inl (Exn ValueError [])"
    by (simp add: int_of_str_55_7)
  have t: "trunc_rat (557 / 10) = 55"
    by (simp add: trunc_rat_def floor_unique)
  have a: "weather_fields (PDict [(''main'', PDict [(''temp'', PFloat (Fin (237 / 10))),
                                                    (''humidity'', PStr ''55.7'')])])
             = Inl (Exn ValueError [])"
    by (simp add: weather_fields_def bind_exn_def lookup_or_def is_number_def int_if_number_def
          float_of_str_55_7 int_of_str_55_7)
  have b: "weather_fields (PDict [(''main'', PDict [(''temp'', PFloat (Fin (237 / 10))),
                                                    (''humidity'', PFloat (Fin (557 / 10)))])])
             = Inr (Some \<lparr>temp = Fin (237 / 10), humidity = Some 55, pressure = None,
                            wind = None, desc = PStr []\<rparr>, None)"
    by (simp add: weather_fields_def bind_exn_def lookup_or_def is_number_def int_if_number_def
          float_if_number_def t)
  show ?thesis
    using n i t a b by (simp add: get_weather_up)
qed


section \<open>The geolocation resolver\<close>

lemma float_of_str_50_08: "float_of_str ''50.08'' = Some (Fin (1252 / 25))"
proof -
  have strip: "py_strip ''50.08'' = ''50.08''"
    by (simp add: py_strip_def is_space_def)
  have dec: "parse_decimal ''50.08'' = Some (1252 / 25)"
    by (simp add: parse_decimal_def is_digit_def digits_val_def scale10_def)
  show ?thesis
    by (simp add: float_of_str_def strip dec lower_def)
qed

lemma geo_fields_dict:
  "geo_fields (PDict d) =
     (case py_float (lookup_or d ''lat'' PNone) of
        Inl e \<Rightarrow> Inr (None, Some ''Missing lat/lon'')
      | Inr la \<Rightarrow>
          (case py_float (lookup_or d ''lon'' PNone) of
             Inl e \<Rightarrow> Inr (None, Some ''Missing lat/lon'')
           | Inr lo \<Rightarrow>
               Inr (Some \<lparr>lat = la, lon = lo, city = lookup_or d ''city'' PNone,
                          country = py_or (lookup_or d ''countryCode'' PNone)
                                          (lookup_or d ''country'' PNone)\<rparr>, None)))"
  by (simp add: geo_fields_def bind_exn_def is_number_def split: sum.splits)

lemma geo_result_value: "fst (geo_result env data w) = geo_fields data"
  by (simp add: geo_result_def split: sum.splits option.splits prod.splits)

lemma get_geo_by_ip_primary:
  assumes "fst (http_get_json env primary_url w) = (PDict d, None)" and "d \<noteq> []"
  shows "fst (get_geo_by_ip env w) = geo_fields (PDict d)"
proof -
  obtain w1 where "http_get_json env primary_url w = ((PDict d, None), w1)"
    using assms(1) by (cases "http_get_json env primary_url w") auto
  then show ?thesis
    using assms(2)
    by (simp add: get_geo_by_ip_def request_failed_def str_truthy_def geo_result_value)
qed

text \<open>
  C6. A geolocation response whose \<open>lat\<close> and \<open>lon\<close> pass the is-number check (which
  \<open>float()\<close> decides, so the string "50.08" passes) is accepted: \<open>get_geo_by_ip\<close>
  returns both coerced to floats, with \<open>city\<close> and \<open>country\<close> as they are in the
  response and \<open>None\<close> when absent. If \<open>lat\<close> or \<open>lon\<close> is missing or fails the check,
  it returns no location and the error "Missing lat/lon".
\<close>

theorem get_geo_by_ip_validates_lat_lon:
  assumes "fst (http_get_json env primary_url w) = (PDict d, None)" and "d \<noteq> []"
  shows "fst (get_geo_by_ip env w) =
           (case py_float (lookup_or d ''lat'' PNone) of
              Inl e \<Rightarrow> Inr (None, Some ''Missing lat/lon'')
            | Inr la \<Rightarrow>
                (case py_float (lookup_or d ''lon'' PNone) of
                   Inl e \<Rightarrow> Inr (None, Some ''Missing lat/lon'')
                 | Inr lo \<Rightarrow>
                     Inr (Some \<lparr>lat = la, lon = lo, city = lookup_or d ''city'' PNone,
                                country = py_or (lookup_or d ''countryCode'' PNone)
                                                (lookup_or d ''country'' PNone)\<rparr>, None)))
         \<and> is_number (lookup_or d ''lat'' PNone) = (\<exists>la. py_float (lookup_or d ''lat'' PNone) = Inr la)
         \<and> is_number (lookup_or d ''lon'' PNone) = (\<exists>lo. py_float (lookup_or d ''lon'' PNone) = Inr lo)
         \<and> \<not> is_number PNone
         \<and> py_float (PStr ''50.08'') = Inr (Fin (1252 / 25))
         \<and> py_float (PFloat (Fin (1443 / 100))) = Inr (Fin (1443 / 100))"
proof -
  have "fst (get_geo_by_ip env w) = geo_fields (PDict d)"
    using assms by (rule get_geo_by_ip_primary)
  then show ?thesis
    by (simp add: geo_fields_dict is_number_def float_of_str_50_08 split: sum.splits)
qed

theorem get_geo_by_ip_validates_lat_lon_witness:
  "fst (get_geo_by_ip
          (env_up (PDict [(''lat'', PStr ''50.08''), (''lon'', PFloat (Fin (1443 / 100)))])) world0)
     = Inr (Some \<lparr>lat = Fin (1252 / 25), lon = Fin (1443 / 100), city = PNone, country = PNone\<rparr>,
            None)
   \<and> fst (get_geo_by_ip (env_up (PDict [(''lat'', PStr ''north''), (''city'', PStr ''Brno'')])) world0)
     = Inr (None, Some ''Missing lat/lon'')"
proof -
  let ?d1 = "[(''lat'', PStr ''50.08''), (''lon'', PFloat (Fin (1443 / 100)))]"
  let ?d2 = "[(''lat'', PStr ''north''), (''city'', PStr ''Brno'')]"
  have h1: "fst (http_get_json (env_up (PDict ?d1)) primary_url world0) = (PDict ?d1, None)"
    by (rule http_get_json_ok) (simp add: env_up_def)
  have h2: "fst (http_get_json (env_up (PDict ?d2)) primary_url world0) = (PDict ?d2, None)"
    by (rule http_get_json_ok) (simp add: env_up_def)
  have north: "py_float (PStr ''north'') = Inl (Exn ValueError [])"
    by (simp add: float_of_str_def py_strip_def is_space_def lower_def parse_decimal_def
          is_digit_def)
  show ?thesis
    using get_geo_by_ip_validates_lat_lon [OF h1] get_geo_by_ip_validates_lat_lon [OF h2] north
    by (simp add: lookup_or_def py_or_def float_of_str_50_08)
qed


section \<open>The fallback endpoint\<close>

lemma geo_result_trace:
  "trace (snd (geo_result env data w)) = trace w
   \<or> (\<exists>m. trace (snd (geo_result env data w)) = trace w @ [Log m])"
  by (simp add: geo_result_def split: sum.splits option.splits prod.splits)

lemma get_geo_by_ip_unfold:
  "get_geo_by_ip env w =
     (if request_failed (fst (primary_call env w)) then
        (if request_failed (fst (fallback_call env w))
         then (Inr (None, Some (first_error [snd (fst (fallback_call env w)),
                                             snd (fst (primary_call env w))] ''No data'')),
               snd (fallback_call env w))
         else geo_result env (fst (fst (fallback_call env w))) (snd (fallback_call env w)))
      else geo_result env (fst (fst (primary_call env w))) (snd (primary_call env w)))"
  by (simp add: get_geo_by_ip_def primary_call_def fallback_call_def split: prod.splits)

lemma primary_call_trace:
  "\<exists>evs. trace (snd (primary_call env w)) = trace w @ evs
         \<and> count_list evs (HttpRequest primary_url True) = 1
         \<and> count_list evs (HttpRequest fallback_url True) = 0
         \<and> filter is_sleep evs = []"
proof -
  obtain evs where t: "trace (snd (http_get_json env primary_url w)) = trace w @ evs"
    and f: "filter is_sleep evs = []"
    using http_get_json_trace [of env primary_url w] by blast
  have "count_list evs (HttpRequest primary_url True) = 1"
    using http_get_json_trace [of env primary_url w primary_url] t by auto
  moreover have "count_list evs (HttpRequest fallback_url True) = 0"
    using http_get_json_trace [of env primary_url w fallback_url] t
    by (auto simp: primary_url_def fallback_url_def)
  ultimately show ?thesis
    using t f by (auto simp: primary_call_def)
qed

lemma fallback_call_trace:
  "\<exists>evs. trace (snd (fallback_call env w)) = trace (snd (primary_call env w)) @ evs
         \<and> count_list evs (HttpRequest primary_url True) = 0
         \<and> count_list evs (HttpRequest fallback_url True) = 1
         \<and> filter is_sleep evs = []"
proof -
  let ?w2 = "log_msg (py_format ''Geo primary failed: {}'' [opt_str (snd (fst (primary_call env w)))])
               (snd (primary_call env w))"
  obtain evs where t: "trace (snd (http_get_json env fallback_url ?w2)) = trace ?w2 @ evs"
    and f: "filter is_sleep evs = []"
    using http_get_json_trace [of env fallback_url ?w2] by blast
  have "count_list evs (HttpRequest fallback_url True) = 1"
    using http_get_json_trace [of env fallback_url ?w2 fallback_url] t by auto
  moreover have "count_list evs (HttpRequest primary_url True) = 0"
    using http_get_json_trace [of env fallback_url ?w2 primary_url] t
    by (auto simp: primary_url_def fallback_url_def)
  ultimately show ?thesis
    using t f by (auto simp: fallback_call_def)
qed

text \<open>The requests and the sleeps that one call of \<open>get_geo_by_ip\<close> adds to the trace.\<close>

lemma get_geo_by_ip_trace:
  "\<exists>evs. trace (snd (get_geo_by_ip env w)) = trace w @ evs
         \<and> count_list evs (HttpRequest primary_url True) = 1
         \<and> count_list evs (HttpRequest fallback_url True)
             = (if request_failed (fst (primary_call env w)) then 1 else 0)
         \<and> filter is_sleep evs = []"
proof -
  obtain e1 where p: "trace (snd (primary_call env w)) = trace w @ e1"
      "count_list e1 (HttpRequest primary_url True) = 1"
      "count_list e1 (HttpRequest fallback_url True) = 0" "filter is_sleep e1 = []"
    using primary_call_trace by blast
  obtain e2 where f: "trace (snd (fallback_call env w)) = trace (snd (primary_call env w)) @ e2"
      "count_list e2 (HttpRequest primary_url True) = 0"
      "count_list e2 (HttpRequest fallback_url True) = 1" "filter is_sleep e2 = []"
    using fallback_call_trace by blast
  show ?thesis
  proof (cases "request_failed (fst (primary_call env w))")
    case False
    then show ?thesis
      using p geo_result_trace [of env "fst (fst (primary_call env w))" "snd (primary_call env w)"]
      by (auto simp: get_geo_by_ip_unfold)
  next
    case True
    show ?thesis
    proof (cases "request_failed (fst (fallback_call env w))")
      case True
      with \<open>request_failed (fst (primary_call env w))\<close> show ?thesis
        using p f by (auto simp: get_geo_by_ip_unfold)
    next
      case False
      with \<open>request_failed (fst (primary_call env w))\<close> show ?thesis
        using p f
          geo_result_trace [of env "fst (fst (fallback_call env w))" "snd (fallback_call env w)"]
        by (auto simp: get_geo_by_ip_unfold)
    qed
  qed
qed

lemma http_result_error_forms:
  "snd (http_result a) = None
   \<or> snd (http_result a) = Some ''Bad JSON''
   \<or> (\<exists>status. snd (http_result a) = Some (''HTTP '' @ str_int status))
   \<or> (\<exists>msg. snd (http_result a) = Some (''NET '' @ msg))"
  using http_result_cases [of a] by auto

lemma first_error_forms:
  assumes "e1 = None \<or> e1 = Some ''Bad JSON'' \<or> (\<exists>status. e1 = Some (''HTTP '' @ str_int status))
           \<or> (\<exists>msg. e1 = Some (''NET '' @ msg))"
      and "e2 = None \<or> e2 = Some ''Bad JSON'' \<or> (\<exists>status. e2 = Some (''HTTP '' @ str_int status))
           \<or> (\<exists>msg. e2 = Some (''NET '' @ msg))"
  shows "first_error [e2, e1] ''No data'' = ''No data''
         \<or> first_error [e2, e1] ''No data'' = ''Bad JSON''
         \<or> (\<exists>status. first_error [e2, e1] ''No data'' = ''HTTP '' @ str_int status)
         \<or> (\<exists>msg. first_error [e2, e1] ''No data'' = ''NET '' @ msg)"
  using assms by (auto simp: first_error_def str_truthy_def opt_str_def)

lemma events_since_append: "trace w' = trace w @ evs \<Longrightarrow> events_since w w' = evs"
  by (simp add: events_since_def)

text \<open>
  C7. When the primary request fails or gives a body that counts as no data (the
  source's test \<open>err or not data\<close>), \<open>get_geo_by_ip\<close> makes exactly one request to the
  fallback endpoint, the literal address 208.95.112.1; otherwise it makes none, so a
  call never makes more than one. When the fallback fails too, it returns no location
  and an error string: the fallback's error, else the primary's, else "No data". The
  string is "No data", "Bad JSON", "HTTP " and a status, or "NET " and the text of the
  exception, and these four forms are distinct.
\<close>

theorem get_geo_by_ip_fallback_once:
  "count_list (events_since w (snd (get_geo_by_ip env w))) (HttpRequest fallback_url True)
     = (if request_failed (fst (primary_call env w)) then 1 else 0)
   \<and> count_list (events_since w (snd (get_geo_by_ip env w))) (HttpRequest fallback_url True) \<le> 1
   \<and> fallback_url = ''http://208.95.112.1/json/''
   \<and> fst (primary_call env w) = http_result (deciding_answer env primary_url w)
   \<and> (request_failed (fst (primary_call env w)) \<and> request_failed (fst (fallback_call env w)) \<longrightarrow>
        fst (get_geo_by_ip env w) =
          Inr (None, Some (first_error [snd (fst (fallback_call env w)),
                                        snd (fst (primary_call env w))] ''No data''))
        \<and> (first_error [snd (fst (fallback_call env w)),
                         snd (fst (primary_call env w))] ''No data'' = ''No data''
           \<or> first_error [snd (fst (fallback_call env w)),
                           snd (fst (primary_call env w))] ''No data'' = ''Bad JSON''
           \<or> (\<exists>status. first_error [snd (fst (fallback_call env w)),
                           snd (fst (primary_call env w))] ''No data'' = ''HTTP '' @ str_int status)
           \<or> (\<exists>msg. first_error [snd (fst (fallback_call env w)),
                           snd (fst (primary_call env w))] ''No data'' = ''NET '' @ msg)))
   \<and> (request_failed (fst (primary_call env w)) \<and> \<not> request_failed (fst (fallback_call env w)) \<longrightarrow>
        fst (get_geo_by_ip env w) = geo_fields (fst (fst (fallback_call env w))))
   \<and> ''No data'' \<noteq> ''Bad JSON'' \<and> ''HTTP '' @ x \<noteq> ''No data'' \<and> ''HTTP '' @ x \<noteq> ''Bad JSON''
   \<and> ''NET '' @ y \<noteq> ''No data'' \<and> ''NET '' @ y \<noteq> ''Bad JSON'' \<and> ''NET '' @ y \<noteq> ''HTTP '' @ x"
proof -
  obtain evs where t: "trace (snd (get_geo_by_ip env w)) = trace w @ evs"
    and c: "count_list evs (HttpRequest fallback_url True)
              = (if request_failed (fst (primary_call env w)) then 1 else 0)"
    using get_geo_by_ip_trace [of env w] by blast
  have ev: "events_since w (snd (get_geo_by_ip env w)) = evs"
    using t by (rule events_since_append)
  have p: "fst (primary_call env w) = http_result (deciding_answer env primary_url w)"
    by (simp add: primary_call_def http_get_json_result)
  have ep: "snd (fst (primary_call env w)) = None
      \<or> snd (fst (primary_call env w)) = Some ''Bad JSON''
      \<or> (\<exists>status. snd (fst (primary_call env w)) = Some (''HTTP '' @ str_int status))
      \<or> (\<exists>msg. snd (fst (primary_call env w)) = Some (''NET '' @ msg))"
    unfolding p by (rule http_result_error_forms)
  have ef: "snd (fst (fallback_call env w)) = None
      \<or> snd (fst (fallback_call env w)) = Some ''Bad JSON''
      \<or> (\<exists>status. snd (fst (fallback_call env w)) = Some (''HTTP '' @ str_int status))
      \<or> (\<exists>msg. snd (fst (fallback_call env w)) = Some (''NET '' @ msg))"
    unfolding fallback_call_def http_get_json_result by (rule http_result_error_forms)
  note forms = first_error_forms [OF ep ef]
  have both: "request_failed (fst (primary_call env w)) \<Longrightarrow>
      request_failed (fst (fallback_call env w)) \<Longrightarrow>
      fst (get_geo_by_ip env w) =
          Inr (None, Some (first_error [snd (fst (fallback_call env w)),
                                        snd (fst (primary_call env w))] ''No data''))"
    by (simp add: get_geo_by_ip_unfold)
  have second: "request_failed (fst (primary_call env w)) \<Longrightarrow>
      \<not> request_failed (fst (fallback_call env w)) \<Longrightarrow>
      fst (get_geo_by_ip env w) = geo_fields (fst (fst (fallback_call env w)))"
    by (simp add: get_geo_by_ip_unfold geo_result_value)
  have cnt: "count_list (events_since w (snd (get_geo_by_ip env w))) (HttpRequest fallback_url True)
     = (if request_failed (fst (primary_call env w)) then 1 else 0)"
    using ev c by simp
  have url: "fallback_url = ''http://208.95.112.1/json/''"
    by (simp add: fallback_url_def)
  have dist: "''No data'' \<noteq> ''Bad JSON'' \<and> ''HTTP '' @ x \<noteq> ''No data'' \<and> ''HTTP '' @ x \<noteq> ''Bad JSON''
   \<and> ''NET '' @ y \<noteq> ''No data'' \<and> ''NET '' @ y \<noteq> ''Bad JSON'' \<and> ''NET '' @ y \<noteq> ''HTTP '' @ x"
    by simp
  have le: "count_list (events_since w (snd (get_geo_by_ip env w))) (HttpRequest fallback_url True) \<le> 1"
    using cnt by simp
  from cnt le url p both second forms dist show ?thesis
    by blast
qed

theorem get_geo_by_ip_fallback_once_witness:
  "count_list (events_since world0 (snd (get_geo_by_ip env_down world0)))
     (HttpRequest fallback_url True) = 1
   \<and> fst (get_geo_by_ip env_down world0) = Inr (None, Some ''NET ECONNABORTED'')"
proof -
  have p: "fst (primary_call env_down world0) = (PNone, Some ''NET ECONNABORTED'')"
    unfolding primary_call_def
    using http_get_json_raises [of env_down world0 primary_url "Exn OSError ''ECONNABORTED''"]
    by (simp add: env_down_def)
  have f: "fst (fallback_call env_down world0) = (PNone, Some ''NET ECONNABORTED'')"
    unfolding fallback_call_def
    by (rule http_get_json_raises [where e = "Exn OSError ''ECONNABORTED''", simplified])
       (simp_all add: env_down_def)
  show ?thesis
    using get_geo_by_ip_fallback_once [of world0 env_down]
    by (simp add: p f request_failed_def str_truthy_def first_error_def opt_str_def)
qed


section \<open>The connectivity manager\<close>

subsection \<open>Display calls leave the radio and the clock alone\<close>

lemma lcd_call_trace:
  "clock (snd (lcd_call env l ev w)) = clock w
   \<and> radio_on (snd (lcd_call env l ev w)) = radio_on w
   \<and> trace (snd (lcd_call env l ev w))
       = trace w @ (if fst (lcd_call env l ev w) = Inr () then [ev] else [])"
  by (simp add: lcd_call_def split: option.splits)

lemma lcd_calls_trace:
  "\<exists>k \<le> length evs.
     trace (snd (lcd_calls env l evs w)) = trace w @ take k evs
     \<and> clock (snd (lcd_calls env l evs w)) = clock w
     \<and> radio_on (snd (lcd_calls env l evs w)) = radio_on w
     \<and> (fst (lcd_calls env l evs w) = Inr () \<longrightarrow> k = length evs)"
proof (induction evs arbitrary: w)
  case Nil
  then show ?case by simp
next
  case (Cons ev evs)
  obtain r w1 where c: "lcd_call env l ev w = (r, w1)"
    by (cases "lcd_call env l ev w")
  have f: "clock w1 = clock w" "radio_on w1 = radio_on w"
    "trace w1 = trace w @ (if r = Inr () then [ev] else [])"
    using lcd_call_trace [of env l ev w] c by simp_all
  show ?case
  proof (cases r)
    case (Inl e)
    then show ?thesis
      using c f by (intro exI [of _ 0]) simp
  next
    case (Inr u)
    obtain k where k: "k \<le> length evs"
        "trace (snd (lcd_calls env l evs w1)) = trace w1 @ take k evs"
        "clock (snd (lcd_calls env l evs w1)) = clock w1"
        "radio_on (snd (lcd_calls env l evs w1)) = radio_on w1"
        "fst (lcd_calls env l evs w1) = Inr () \<longrightarrow> k = length evs"
      using Cons.IH [of w1] by blast
    show ?thesis
      using Inr c f k by (intro exI [of _ "Suc k"]) simp
  qed
qed

lemma radio_view_take_lcd:
  assumes "\<forall>e \<in> set evs. \<not> is_radio_event e"
  shows "radio_view (take k evs) = []"
  using assms by (auto simp: radio_view_def filter_empty_conv dest: in_set_takeD)

lemma lcd_write_lines_frame:
  "clock (snd (lcd_write_lines env l cols a b w)) = clock w
   \<and> radio_on (snd (lcd_write_lines env l cols a b w)) = radio_on w
   \<and> radio_view (trace (snd (lcd_write_lines env l cols a b w))) = radio_view (trace w)"
proof -
  obtain k where "trace (snd (lcd_write_lines env l cols a b w))
                    = trace w @ take k (lcd_write_lines_ops cols a b)"
      "clock (snd (lcd_write_lines env l cols a b w)) = clock w"
      "radio_on (snd (lcd_write_lines env l cols a b w)) = radio_on w"
    using lcd_calls_trace [of "lcd_write_lines_ops cols a b" env l w]
    by (auto simp: lcd_write_lines_def)
  moreover have "radio_view (take k (lcd_write_lines_ops cols a b)) = []"
    by (rule radio_view_take_lcd) (simp add: lcd_write_lines_ops_def)
  ultimately show ?thesis by simp
qed

subsection \<open>The wait loop when the access point never answers\<close>

lemma wifi_poll_down:
  assumes "\<not> isconnected_at env (calls w)"
  shows "\<exists>w'. wifi_poll env l cols start mx w
                 = (if ticks_diff (ticks_ms w) start > mx * 1000 then Done False else Again, w')
              \<and> clock w' = clock w + (if ticks_diff (ticks_ms w) start > mx * 1000 then 0 else 300)
              \<and> radio_on w' = radio_on w
              \<and> radio_view (trace w') = radio_view (trace w)
                   @ (if ticks_diff (ticks_ms w) start > mx * 1000 then [] else [Sleep 300])"
proof -
  let ?w1 = "w\<lparr>calls := calls w + 1\<rparr>"
  let ?lw = "lcd_write_lines env l cols ''Connecting WiFi'' ''Please wait...'' ?w1"
  let ?w2 = "if l \<noteq> None then
               (case ?lw of
                  (Inl e, w') \<Rightarrow>
                    log_msg (py_format ''LCD write failed (wifi loop): {}'' [exn_text e]) w'
                | (Inr u, w') \<Rightarrow> w')
             else ?w1"
  have fr: "clock (snd ?lw) = clock w" "radio_on (snd ?lw) = radio_on w"
      "radio_view (trace (snd ?lw)) = radio_view (trace w)"
    using lcd_write_lines_frame [of env l cols "''Connecting WiFi''" "''Please wait...''" ?w1]
    by simp_all
  have w2: "clock ?w2 = clock w" "radio_on ?w2 = radio_on w"
      "radio_view (trace ?w2) = radio_view (trace w)"
    using fr by (cases ?lw; cases "fst ?lw"; simp)+
  have t: "ticks_ms ?w2 = ticks_ms w"
    using w2(1) by (rule ticks_ms_clock)
  have p: "wifi_poll env l cols start mx w
           = (if ticks_diff (ticks_ms ?w2) start > mx * 1000
              then (Done False, log_msg ''WiFi connect TIMEOUT'' ?w2)
              else (Again, sleep_ms 300 ?w2))"
    using assms by (simp add: wifi_poll_def wlan_isconnected_def Let_def)
  show ?thesis
    unfolding p t using w2 by simp
qed

text \<open>
  \<open>K\<close> is the number of polls after which the wait is over: the first \<open>k\<close> with
  \<open>300 * k\<close> above the limit.
\<close>

lemma wifi_wait_down:
  assumes never: "\<forall>n. \<not> isconnected_at env n"
      and lo: "int (300 * (K - 1)) \<le> mx * 1000"
      and hi: "mx * 1000 < int (300 * K)"
      and small: "300 * K < 536870912"
      and diff: "K - k = n"
      and le: "k \<le> K"
      and clk: "clock w = c0 + 300 * k"
  shows "\<exists>w'. wifi_wait env l cols (ticks_of c0) mx w = Some (False, w')
              \<and> clock w' = c0 + 300 * K
              \<and> radio_on w' = radio_on w
              \<and> radio_view (trace w') = radio_view (trace w) @ replicate (K - k) (Sleep 300)"
  using diff le clk
proof (induction n arbitrary: w k)
  case 0
  then have k: "k = K" by simp
  have "ticks_diff (ticks_ms w) (ticks_of c0) = int (300 * K)"
    using ticks_diff_elapsed [of "300 * K" c0] small "0.prems"(3) k
    by (simp add: ticks_ms_def)
  then have over: "ticks_diff (ticks_ms w) (ticks_of c0) > mx * 1000"
    using hi by simp
  obtain w' where "wifi_poll env l cols (ticks_of c0) mx w = (Done False, w')"
      "clock w' = clock w" "radio_on w' = radio_on w"
      "radio_view (trace w') = radio_view (trace w)"
    using wifi_poll_down [of env w l cols "ticks_of c0" mx] never over by auto
  then show ?case
    using k "0.prems"(3) by (subst wifi_wait.simps) simp
next
  case (Suc n)
  then have k: "k < K" by simp
  then have "300 * k \<le> 300 * (K - 1)" by simp
  then have below: "int (300 * k) \<le> mx * 1000"
    using lo by linarith
  have "ticks_diff (ticks_ms w) (ticks_of c0) = int (300 * k)"
    using ticks_diff_elapsed [of "300 * k" c0] small k Suc.prems(3)
    by (simp add: ticks_ms_def)
  then have under: "\<not> ticks_diff (ticks_ms w) (ticks_of c0) > mx * 1000"
    using below by simp
  obtain w1 where w1: "wifi_poll env l cols (ticks_of c0) mx w = (Again, w1)"
      "clock w1 = clock w + 300" "radio_on w1 = radio_on w"
      "radio_view (trace w1) = radio_view (trace w) @ [Sleep 300]"
    using wifi_poll_down [of env w l cols "ticks_of c0" mx] never under by auto
  have "K - Suc k = n" "Suc k \<le> K" "clock w1 = c0 + 300 * Suc k"
    using Suc.prems k w1(2) by simp_all
  from Suc.IH [OF this]
  obtain w' where w': "wifi_wait env l cols (ticks_of c0) mx w1 = Some (False, w')"
      "clock w' = c0 + 300 * K" "radio_on w' = radio_on w1"
      "radio_view (trace w') = radio_view (trace w1) @ replicate (K - Suc k) (Sleep 300)"
    by blast
  have "replicate (K - k) (Sleep 300) = Sleep 300 # replicate (K - Suc k) (Sleep 300)"
    using k by (simp add: Suc_diff_Suc flip: replicate_Suc)
  then show ?case
    using w1 w' by (subst wifi_wait.simps) simp
qed

text \<open>One call of \<open>wifi_connect\<close> when the access point never answers.\<close>

lemma wifi_connect_down:
  assumes never: "\<forall>n. \<not> isconnected_at env n"
      and lo: "int (300 * (K - 1)) \<le> mx * 1000"
      and hi: "mx * 1000 < int (300 * K)"
      and small: "300 * K < 536870912"
  shows "\<exists>w'. wifi_connect env ssid password l cols mx w = Some (Inr False, w')
              \<and> clock w' = clock w + 300 * K
              \<and> radio_on w'
              \<and> radio_view (trace w') = radio_view (trace w)
                   @ (if radio_on w then [] else [WlanActive True])
                   @ WlanConnect ssid password # replicate K (Sleep 300)"
proof -
  let ?w1 = "if \<not> radio_on w then wlan_active_set True w else w"
  let ?w2 = "?w1\<lparr>calls := calls ?w1 + 1\<rparr>"
  let ?w4 = "wifi_start ssid password ?w2"
  have w4: "clock ?w4 = clock w" "radio_on ?w4"
      "radio_view (trace ?w4) = radio_view (trace w)
         @ (if radio_on w then [] else [WlanActive True]) @ [WlanConnect ssid password]"
    by (simp_all add: wifi_start_def)
  have "K - 0 = K" "0 \<le> K" "clock ?w4 = clock w + 300 * 0"
    using w4(1) by simp_all
  from wifi_wait_down [OF never lo hi small this, of l cols]
  obtain w' where w': "wifi_wait env l cols (ticks_of (clock w)) mx ?w4 = Some (False, w')"
      "clock w' = clock w + 300 * K" "radio_on w' = radio_on ?w4"
      "radio_view (trace w') = radio_view (trace ?w4) @ replicate (K - 0) (Sleep 300)"
    by blast
  have t: "ticks_ms ?w4 = ticks_of (clock w)"
    using w4(1) by (simp add: ticks_ms_def)
  have "wifi_connect env ssid password l cols mx w = Some (Inr False, w')"
    using never w'(1) t
    by (simp add: wifi_connect_def wlan_isconnected_def Let_def)
  then show ?thesis
    using w' w4 by simp
qed

lemma wifi_connect_down_20:
  assumes "\<forall>n. \<not> isconnected_at env n"
  shows "\<exists>w'. wifi_connect env ssid password l cols 20 w = Some (Inr False, w')
              \<and> clock w' = clock w + 20100
              \<and> radio_on w'
              \<and> radio_view (trace w') = radio_view (trace w)
                   @ (if radio_on w then [] else [WlanActive True])
                   @ WlanConnect ssid password # replicate 67 (Sleep 300)"
  using wifi_connect_down [OF assms, of 67 20 ssid password l cols w] by simp

lemma wifi_connect_down_25:
  assumes "\<forall>n. \<not> isconnected_at env n"
  shows "\<exists>w'. wifi_connect env ssid password l cols 25 w = Some (Inr False, w')
              \<and> clock w' = clock w + 25200
              \<and> radio_on w'
              \<and> radio_view (trace w') = radio_view (trace w)
                   @ (if radio_on w then [] else [WlanActive True])
                   @ WlanConnect ssid password # replicate 84 (Sleep 300)"
  using wifi_connect_down [OF assms, of 84 25 ssid password l cols w] by simp

text \<open>One turn of the \<open>for\<close> loop that fails, followed by the rest of the loop.\<close>

lemma wifi_attempts_down_step:
  assumes "\<forall>n. \<not> isconnected_at env n"
  shows "\<exists>w1. wifi_attempts env ssid password l cols (a # rest) w
                 = wifi_attempts env ssid password l cols rest w1
              \<and> clock w1 = clock w + 20600
              \<and> radio_on w1
              \<and> radio_view (trace w1) = radio_view (trace w)
                   @ (if radio_on w then [] else [WlanActive True])
                   @ WlanConnect ssid password # replicate 67 (Sleep 300) @ [Sleep 500]"
proof -
  let ?w0 = "log_msg (py_format ''WiFi reconnect attempt {}'' [str_int a]) w"
  obtain w' where w': "wifi_connect env ssid password l cols 20 ?w0 = Some (Inr False, w')"
      "clock w' = clock ?w0 + 20100" "radio_on w'"
      "radio_view (trace w') = radio_view (trace ?w0)
         @ (if radio_on ?w0 then [] else [WlanActive True])
         @ WlanConnect ssid password # replicate 67 (Sleep 300)"
    using wifi_connect_down_20 [OF assms, of ssid password l cols ?w0] by blast
  show ?thesis
    using w' by (intro exI [of _ "sleep_ms 500 w'"]) simp
qed

lemma wifi_ensure_connected_down:
  assumes never: "\<forall>n. \<not> isconnected_at env n"
  shows "\<exists>w'. wifi_ensure_connected env ssid password l cols w = Some (Inr False, w')
         \<and> clock w' = clock w + 87600
         \<and> radio_view (trace w') = radio_view (trace w)
              @ (if radio_on w then [] else [WlanActive True])
              @ WlanConnect ssid password # replicate 67 (Sleep 300) @ [Sleep 500]
              @ WlanConnect ssid password # replicate 67 (Sleep 300) @ [Sleep 500]
              @ WlanConnect ssid password # replicate 67 (Sleep 300) @ [Sleep 500]
              @ [WlanDisconnect, Sleep 200, WlanActive False, Sleep 200, WlanActive True, Sleep 200]
              @ WlanConnect ssid password # replicate 84 (Sleep 300)"
proof -
  let ?w0 = "w\<lparr>calls := calls w + 1\<rparr>"
  let ?a = "WlanConnect ssid password # replicate 67 (Sleep 300) @ [Sleep 500]"
  obtain w1 where w1: "wifi_attempts env ssid password l cols [1, 2, 3] ?w0
                         = wifi_attempts env ssid password l cols [2, 3] w1"
      "clock w1 = clock ?w0 + 20600" "radio_on w1"
      "radio_view (trace w1) = radio_view (trace ?w0)
         @ (if radio_on ?w0 then [] else [WlanActive True]) @ ?a"
    using wifi_attempts_down_step [OF never, of ssid password l cols 1 "[2, 3]" ?w0] by blast
  obtain w2 where w2: "wifi_attempts env ssid password l cols [2, 3] w1
                         = wifi_attempts env ssid password l cols [3] w2"
      "clock w2 = clock w1 + 20600" "radio_on w2"
      "radio_view (trace w2) = radio_view (trace w1)
         @ (if radio_on w1 then [] else [WlanActive True]) @ ?a"
    using wifi_attempts_down_step [OF never, of ssid password l cols 2 "[3]" w1] by blast
  obtain w3 where w3: "wifi_attempts env ssid password l cols [3] w2
                         = wifi_attempts env ssid password l cols [] w3"
      "clock w3 = clock w2 + 20600" "radio_on w3"
      "radio_view (trace w3) = radio_view (trace w2)
         @ (if radio_on w2 then [] else [WlanActive True]) @ ?a"
    using wifi_attempts_down_step [OF never, of ssid password l cols 3 "[]" w2] by blast
  have loop: "wifi_attempts env ssid password l cols [1, 2, 3] ?w0 = Some (Inr Again, w3)"
    using w1(1) w2(1) w3(1) by simp
  have hr: "clock (hard_reset w3) = clock w3 + 600" "radio_on (hard_reset w3)"
      "radio_view (trace (hard_reset w3)) = radio_view (trace w3)
         @ [WlanDisconnect, Sleep 200, WlanActive False, Sleep 200, WlanActive True, Sleep 200]"
    by (simp_all add: hard_reset_def)
  obtain w' where w': "wifi_connect env ssid password l cols 25 (hard_reset w3) = Some (Inr False, w')"
      "clock w' = clock (hard_reset w3) + 25200"
      "radio_view (trace w') = radio_view (trace (hard_reset w3))
         @ (if radio_on (hard_reset w3) then [] else [WlanActive True])
         @ WlanConnect ssid password # replicate 84 (Sleep 300)"
    using wifi_connect_down_25 [OF never, of ssid password l cols "hard_reset w3"] by blast
  have res: "wifi_ensure_connected env ssid password l cols w = Some (Inr False, w')"
    using never loop w'(1) by (simp add: wifi_ensure_connected_def wlan_isconnected_def)
  have clk: "clock w' = clock w + 87600"
    using w1(2) w2(2) w3(2) hr(1) w'(2) by simp
  have view: "radio_view (trace w') = radio_view (trace w)
              @ (if radio_on w then [] else [WlanActive True])
              @ ?a @ ?a @ ?a
              @ [WlanDisconnect, Sleep 200, WlanActive False, Sleep 200, WlanActive True, Sleep 200]
              @ WlanConnect ssid password # replicate 84 (Sleep 300)"
    using w1(3,4) w2(3,4) w3(4) hr(2,3) w'(3) by simp
  show ?thesis
    using res clk view by (intro exI [of _ w']) simp
qed

text \<open>
  C1. When the interface never reports connected, \<open>wifi_ensure_connected\<close> returns
  \<open>False\<close> after exactly this sequence of radio commands and sleeps: three times
  \<open>connect\<close> with 67 polls of 300 ms (the wait ends with the first poll past 20 s) and
  a pause of 500 ms, then the hard reset (\<open>disconnect\<close>, radio off, radio on, 200 ms
  after each), then one last \<open>connect\<close> with 84 polls (past 25 s); 87.6 s have passed.
  When the interface reports connected at entry, it returns \<open>True\<close> at once and the
  trace is unchanged.
\<close>

theorem wifi_ensure_connected_bounded:
  "((\<forall>n. \<not> isconnected_at env n) \<longrightarrow>
      (\<exists>w'. wifi_ensure_connected env ssid password l cols w = Some (Inr False, w')
         \<and> clock w' = clock w + 87600
         \<and> radio_view (trace w') = radio_view (trace w)
              @ (if radio_on w then [] else [WlanActive True])
              @ WlanConnect ssid password # replicate 67 (Sleep 300) @ [Sleep 500]
              @ WlanConnect ssid password # replicate 67 (Sleep 300) @ [Sleep 500]
              @ WlanConnect ssid password # replicate 67 (Sleep 300) @ [Sleep 500]
              @ [WlanDisconnect, Sleep 200, WlanActive False, Sleep 200, WlanActive True, Sleep 200]
              @ WlanConnect ssid password # replicate 84 (Sleep 300)))
   \<and> (isconnected_at env (calls w) \<longrightarrow>
        wifi_ensure_connected env ssid password l cols w
          = Some (Inr True, w\<lparr>calls := calls w + 1\<rparr>))"
proof (intro conjI impI)
  assume "\<forall>n. \<not> isconnected_at env n"
  then show "\<exists>w'. wifi_ensure_connected env ssid password l cols w = Some (Inr False, w')
         \<and> clock w' = clock w + 87600
         \<and> radio_view (trace w') = radio_view (trace w)
              @ (if radio_on w then [] else [WlanActive True])
              @ WlanConnect ssid password # replicate 67 (Sleep 300) @ [Sleep 500]
              @ WlanConnect ssid password # replicate 67 (Sleep 300) @ [Sleep 500]
              @ WlanConnect ssid password # replicate 67 (Sleep 300) @ [Sleep 500]
              @ [WlanDisconnect, Sleep 200, WlanActive False, Sleep 200, WlanActive True, Sleep 200]
              @ WlanConnect ssid password # replicate 84 (Sleep 300)"
    by (rule wifi_ensure_connected_down)
next
  assume "isconnected_at env (calls w)"
  then show "wifi_ensure_connected env ssid password l cols w
               = Some (Inr True, w\<lparr>calls := calls w + 1\<rparr>)"
    by (simp add: wifi_ensure_connected_def wlan_isconnected_def)
qed

theorem wifi_ensure_connected_bounded_witness:
  "(\<exists>w'. wifi_ensure_connected env_down ''home'' ''secret'' None 16 world0 = Some (Inr False, w')
        \<and> clock w' = 87600
        \<and> length (filter (\<lambda>e. e = WlanConnect ''home'' ''secret'') (radio_view (trace w'))) = 4)
   \<and> wifi_ensure_connected (env_up PNone) ''home'' ''secret'' None 16 world0
       = Some (Inr True, world0\<lparr>calls := 1\<rparr>)"
proof -
  have down: "\<forall>n. \<not> isconnected_at env_down n"
    by (simp add: env_down_def)
  have up: "isconnected_at (env_up PNone) (calls world0)"
    by (simp add: env_up_def)
  show ?thesis
    using wifi_ensure_connected_bounded
            [where env = env_down and ssid = "''home''" and password = "''secret''"
               and l = None and cols = 16 and w = world0]
          wifi_ensure_connected_bounded
            [where env = "env_up PNone" and ssid = "''home''" and password = "''secret''"
               and l = None and cols = 16 and w = world0]
          down up
    by (auto simp: world0_def)
qed


subsection \<open>A fresh connection\<close>

lemma dns_view_append [simp]: "dns_view (xs @ ys) = dns_view xs @ dns_view ys"
  by (simp add: dns_view_def)

lemma dns_view_take_lcd:
  assumes "\<forall>e \<in> set evs. \<not> is_resolve e"
  shows "dns_view (take k evs) = []"
  using assms by (auto simp: dns_view_def filter_empty_conv dest: in_set_takeD)

lemma lcd_write_lines_dns:
  "dns_view (trace (snd (lcd_write_lines env l cols a b w))) = dns_view (trace w)"
proof -
  obtain k where "trace (snd (lcd_write_lines env l cols a b w))
                    = trace w @ take k (lcd_write_lines_ops cols a b)"
    using lcd_calls_trace [of "lcd_write_lines_ops cols a b" env l w]
    by (auto simp: lcd_write_lines_def)
  moreover have "dns_view (take k (lcd_write_lines_ops cols a b)) = []"
    by (rule dns_view_take_lcd) (simp add: lcd_write_lines_ops_def)
  ultimately show ?thesis by simp
qed

lemma wifi_poll_dns: "dns_view (trace (snd (wifi_poll env l cols start mx w))) = dns_view (trace w)"
proof (cases "isconnected_at env (calls w)")
  case True
  then show ?thesis
    by (simp add: wifi_poll_def wlan_isconnected_def)
next
  case False
  let ?w1 = "w\<lparr>calls := calls w + 1\<rparr>"
  let ?lw = "lcd_write_lines env l cols ''Connecting WiFi'' ''Please wait...'' ?w1"
  let ?w2 = "if l \<noteq> None then
               (case ?lw of
                  (Inl e, w') \<Rightarrow>
                    log_msg (py_format ''LCD write failed (wifi loop): {}'' [exn_text e]) w'
                | (Inr u, w') \<Rightarrow> w')
             else ?w1"
  have "dns_view (trace (snd ?lw)) = dns_view (trace w)"
    using lcd_write_lines_dns [of env l cols "''Connecting WiFi''" "''Please wait...''" ?w1]
    by simp
  then have w2: "dns_view (trace ?w2) = dns_view (trace w)"
    by (cases ?lw; cases "fst ?lw") (simp_all add: dns_view_def)
  have "wifi_poll env l cols start mx w
           = (if ticks_diff (ticks_ms ?w2) start > mx * 1000
              then (Done False, log_msg ''WiFi connect TIMEOUT'' ?w2)
              else (Again, sleep_ms 300 ?w2))"
    using False by (simp add: wifi_poll_def wlan_isconnected_def Let_def)
  then show ?thesis
    using w2 by (simp add: dns_view_def)
qed

text \<open>The wait loop makes no name lookup, however it ends.\<close>

lemma wifi_wait_dns:
  assumes "wifi_wait env l cols start mx w = Some r"
  shows "dns_view (trace (snd r)) = dns_view (trace w)"
proof (rule wifi_wait.raw_induct
         [where P = "\<lambda>env l cols start mx w r. dns_view (trace (snd r)) = dns_view (trace w)",
          OF _ assms])
  fix f :: "env \<Rightarrow> lcd option \<Rightarrow> int \<Rightarrow> int \<Rightarrow> int \<Rightarrow> world \<Rightarrow> (bool \<times> world) option"
  fix env l cols start mx w r
  assume IH: "\<And>env l cols start mx w r. f env l cols start mx w = Some r \<Longrightarrow>
                dns_view (trace (snd r)) = dns_view (trace w)"
    and step: "(case wifi_poll env l cols start mx w of
                  (Done b, w1) \<Rightarrow> Some (b, w1)
                | (Again, w1) \<Rightarrow> f env l cols start mx w1) = Some r"
  obtain s w1 where p: "wifi_poll env l cols start mx w = (s, w1)"
    by (cases "wifi_poll env l cols start mx w")
  have d: "dns_view (trace w1) = dns_view (trace w)"
    using wifi_poll_dns [of env l cols start mx w] p by simp
  show "dns_view (trace (snd r)) = dns_view (trace w)"
  proof (cases s)
    case (Done b)
    then show ?thesis using step p d by auto
  next
    case Again
    then have "f env l cols start mx w1 = Some r"
      using step p by simp
    then show ?thesis using IH d by simp
  qed
qed

lemma wifi_connected_trace:
  assumes "ifconfig_at env (calls w) = Inr (ip_s, mask_s, gw_s, dns_s)"
  shows "\<exists>w'. wifi_connected env w = (Inr True, w')
           \<and> trace w' = trace w @
               [Log (py_format ''WiFi connected, IP={}'' [ip_s]),
                Log (case ifconfig_at env (calls w + 1) of
                       Inr (a, b, c, d) \<Rightarrow> py_format ''IFCONFIG ip={} mask={} gw={} dns={}'' [a, b, c, d]
                     | Inl e \<Rightarrow> py_format ''ifconfig read failed: {}'' [exn_text e]),
                Sleep 1000,
                Resolve ''ip-api.com'' 80,
                Log (case getaddrinfo_at env (calls w + 2) ''ip-api.com'' 80 of
                       Inr a \<Rightarrow> py_format ''DNS OK {} -> {}'' [''ip-api.com'', a]
                     | Inl e \<Rightarrow> py_format ''DNS FAIL {} -> {}'' [''ip-api.com'', exn_text e]),
                Resolve ''api.openweathermap.org'' 443,
                Log (case getaddrinfo_at env (calls w + 3) ''api.openweathermap.org'' 443 of
                       Inr a \<Rightarrow> py_format ''DNS OK {} -> {}'' [''api.openweathermap.org'', a]
                     | Inl e \<Rightarrow> py_format ''DNS FAIL {} -> {}''
                                  [''api.openweathermap.org'', exn_text e])]"
proof -
  have n: "calls (log_netinfo env w0) = calls w0 + 1"
      "trace (log_netinfo env w0) = trace w0 @
         [Log (case ifconfig_at env (calls w0) of
                 Inr (a, b, c, d) \<Rightarrow> py_format ''IFCONFIG ip={} mask={} gw={} dns={}'' [a, b, c, d]
               | Inl e \<Rightarrow> py_format ''ifconfig read failed: {}'' [exn_text e])]" for w0
    by (simp_all add: log_netinfo_def wlan_ifconfig_def split: sum.splits prod.splits)
  have d: "calls (snd (dns_test env h p w0)) = calls w0 + 1"
      "trace (snd (dns_test env h p w0)) = trace w0 @
         [Resolve h p,
          Log (case getaddrinfo_at env (calls w0) h p of
                 Inr a \<Rightarrow> py_format ''DNS OK {} -> {}'' [h, a]
               | Inl e \<Rightarrow> py_format ''DNS FAIL {} -> {}'' [h, exn_text e])]" for h p w0
    by (simp_all add: dns_test_def Let_def split: sum.splits)
  show ?thesis
    using assms
    by (simp add: wifi_connected_def wlan_ifconfig_def Let_def n d numeral_3_eq_3
          del: py_format.simps)
qed

text \<open>
  C9. A call of \<open>wifi_connect\<close> that finds the interface not connected, whose wait
  ends with the interface connected and which can read the address, returns \<open>True\<close>
  after logging the address, logging the interface configuration (or that it could
  not be read), sleeping one second and making exactly two name lookups, for
  ip-api.com and api.openweathermap.org. Each lookup is followed by a log line that
  says whether it succeeded; whatever the lookups answer, the result is \<open>True\<close>.
\<close>

theorem wifi_connect_fresh_probes:
  assumes "\<not> isconnected_at env (calls w)"
      and "wifi_wait env l cols (ticks_ms (wifi_entered ssid password w)) max_wait_s
             (wifi_entered ssid password w) = Some (True, w5)"
      and "ifconfig_at env (calls w5) = Inr (ip_s, mask_s, gw_s, dns_s)"
  shows "\<exists>w6. wifi_connect env ssid password l cols max_wait_s w = Some (Inr True, w6)
           \<and> trace w6 = trace w5 @
               [Log (py_format ''WiFi connected, IP={}'' [ip_s]),
                Log (case ifconfig_at env (calls w5 + 1) of
                       Inr (a, b, c, d) \<Rightarrow> py_format ''IFCONFIG ip={} mask={} gw={} dns={}'' [a, b, c, d]
                     | Inl e \<Rightarrow> py_format ''ifconfig read failed: {}'' [exn_text e]),
                Sleep 1000,
                Resolve ''ip-api.com'' 80,
                Log (case getaddrinfo_at env (calls w5 + 2) ''ip-api.com'' 80 of
                       Inr a \<Rightarrow> py_format ''DNS OK {} -> {}'' [''ip-api.com'', a]
                     | Inl e \<Rightarrow> py_format ''DNS FAIL {} -> {}'' [''ip-api.com'', exn_text e]),
                Resolve ''api.openweathermap.org'' 443,
                Log (case getaddrinfo_at env (calls w5 + 3) ''api.openweathermap.org'' 443 of
                       Inr a \<Rightarrow> py_format ''DNS OK {} -> {}'' [''api.openweathermap.org'', a]
                     | Inl e \<Rightarrow> py_format ''DNS FAIL {} -> {}''
                                  [''api.openweathermap.org'', exn_text e])]
           \<and> dns_view (trace w6) = dns_view (trace w)
               @ [Resolve ''ip-api.com'' 80, Resolve ''api.openweathermap.org'' 443]"
proof -
  obtain w6 where w6: "wifi_connected env w5 = (Inr True, w6)"
      "trace w6 = trace w5 @
               [Log (py_format ''WiFi connected, IP={}'' [ip_s]),
                Log (case ifconfig_at env (calls w5 + 1) of
                       Inr (a, b, c, d) \<Rightarrow> py_format ''IFCONFIG ip={} mask={} gw={} dns={}'' [a, b, c, d]
                     | Inl e \<Rightarrow> py_format ''ifconfig read failed: {}'' [exn_text e]),
                Sleep 1000,
                Resolve ''ip-api.com'' 80,
                Log (case getaddrinfo_at env (calls w5 + 2) ''ip-api.com'' 80 of
                       Inr a \<Rightarrow> py_format ''DNS OK {} -> {}'' [''ip-api.com'', a]
                     | Inl e \<Rightarrow> py_format ''DNS FAIL {} -> {}'' [''ip-api.com'', exn_text e]),
                Resolve ''api.openweathermap.org'' 443,
                Log (case getaddrinfo_at env (calls w5 + 3) ''api.openweathermap.org'' 443 of
                       Inr a \<Rightarrow> py_format ''DNS OK {} -> {}'' [''api.openweathermap.org'', a]
                     | Inl e \<Rightarrow> py_format ''DNS FAIL {} -> {}''
                                  [''api.openweathermap.org'', exn_text e])]"
    using wifi_connected_trace [OF assms(3)] by blast
  have res: "wifi_connect env ssid password l cols max_wait_s w = Some (Inr True, w6)"
    using assms(1,2) w6(1)
    by (cases "radio_on w")
       (simp_all add: wifi_connect_def wifi_entered_def wlan_isconnected_def Let_def)
  have "dns_view (trace w5) = dns_view (trace (wifi_entered ssid password w))"
    using wifi_wait_dns [OF assms(2)] by simp
  also have "\<dots> = dns_view (trace w)"
    by (simp add: wifi_entered_def wifi_start_def dns_view_def)
  finally have "dns_view (trace w6) = dns_view (trace w)
               @ [Resolve ''ip-api.com'' 80, Resolve ''api.openweathermap.org'' 443]"
    unfolding w6(2) by (simp add: dns_view_def)
  then show ?thesis
    using res w6(2) by (intro exI [of _ w6]) simp
qed

theorem wifi_connect_fresh_probes_witness:
  "\<exists>w6. wifi_connect env_joining ''home'' ''secret'' None 16 20 world0 = Some (Inr True, w6)
      \<and> dns_view (trace w6) = [Resolve ''ip-api.com'' 80, Resolve ''api.openweathermap.org'' 443]"
proof -
  let ?w4 = "wifi_entered ''home'' ''secret'' world0"
  have c4: "calls ?w4 = 1"
    by (simp add: wifi_entered_def wifi_start_def world0_def)
  have h1: "\<not> isconnected_at env_joining (calls world0)"
    by (simp add: env_joining_def world0_def)
  have h2: "wifi_wait env_joining None 16 (ticks_ms ?w4) 20 ?w4 = Some (True, ?w4\<lparr>calls := 2\<rparr>)"
    by (subst wifi_wait.simps) (simp add: wifi_poll_def wlan_isconnected_def c4 env_joining_def)
  have h3: "ifconfig_at env_joining (calls (?w4\<lparr>calls := 2\<rparr>))
              = Inr (''192.168.1.7'', ''255.255.255.0'', ''192.168.1.1'', ''8.8.8.8'')"
    by (simp add: env_joining_def env_up_def)
  show ?thesis
    using wifi_connect_fresh_probes [OF h1 h2 h3]
    by (auto simp: world0_def dns_view_def)
qed


section \<open>The polling loop\<close>

lemma lcd_calls_ok:
  assumes "\<forall>n. lcd_at env n = None"
  shows "lcd_calls env (Some d) evs w
           = (Inr (), w\<lparr>calls := calls w + length evs, trace := trace w @ evs\<rparr>)"
  using assms by (induction evs arbitrary: w) (simp_all add: lcd_call_def)

lemma lcd_screen_clock: "clock (snd (lcd_screen env l cols a b w)) = clock w"
  using lcd_calls_trace [of "LcdClear # lcd_write_lines_ops cols a b" env l w]
  by (auto simp: lcd_screen_def)

lemma show_error_clock: "clock (show_error env l cols msg s w) = clock w + 1000 * s"
proof -
  let ?w1 = "log_msg (py_format ''ERROR: {}'' [msg]) w"
  let ?ls = "lcd_screen env l cols ''ERROR'' (clamp_str (Some msg) cols) ?w1"
  have "clock (snd ?ls) = clock w"
    using lcd_screen_clock [of env l cols "''ERROR''" "clamp_str (Some msg) cols" ?w1] by simp
  then show ?thesis
    by (cases ?ls; cases "fst ?ls") (simp_all add: show_error_def Let_def)
qed

lemma http_get_json_clock: "clock w \<le> clock (snd (http_get_json env url w))"
proof (cases "is_TypeError (urequests_get_at env (calls w) url)")
  case True
  then show ?thesis
    by (cases "urequests_get_at env (Suc (calls w)) url")
       (simp_all add: http_get_json_def urequests_get_def Let_def split: option.splits)
next
  case False
  then show ?thesis
    by (cases "urequests_get_at env (calls w) url")
       (simp_all add: http_get_json_def urequests_get_def Let_def split: option.splits)
qed

lemma fetch_call_clock: "clock w \<le> clock (snd (fetch_call env cfg g w))"
proof -
  let ?w0 = "log_msg ''Weather fetch start'' w"
  let ?h = "http_get_json env (weather_url env (cfg_api_key cfg) (lat g) (lon g)) ?w0"
  have "clock w \<le> clock (snd ?h)"
    using http_get_json_clock [of ?w0 env "weather_url env (cfg_api_key cfg) (lat g) (lon g)"]
    by simp
  then show ?thesis
    by (cases ?h)
       (auto simp: fetch_call_def get_weather_openweathermap_def
             split: sum.splits option.splits prod.splits)
qed

lemma fetch_failed_clock: "clock w \<le> clock (fetch_failed env l cols cached werr w)"
proof -
  let ?w1 = "log_msg (py_format ''Weather fetch failed: {}'' [opt_str werr]) w"
  let ?ls = "lcd_screen env l cols ''API warn'' ''using cached'' ?w1"
  have "clock (snd ?ls) = clock w"
    using lcd_screen_clock [of env l cols "''API warn''" "''using cached''" ?w1] by simp
  then show ?thesis
    by (cases ?ls; cases "fst ?ls") (simp_all add: fetch_failed_def Let_def show_error_clock)
qed

text \<open>What \<open>fetch_due\<close> does with what the weather resolver returns.\<close>

lemma fetch_due_unfold:
  assumes "fst (fetch_call env cfg g w) = Inr (s, werr)"
  shows "fetch_due env cfg g st now w =
           (if str_truthy werr \<or> s = None
            then (Inr (st\<lparr>next_fetch := ticks_add now interval_ms\<rparr>),
                  fetch_failed env (cfg_lcd cfg) (cfg_cols cfg) (last_weather st) werr
                    (snd (fetch_call env cfg g w)))
            else (Inr (st\<lparr>last_weather := s, next_fetch := ticks_add now interval_ms\<rparr>),
                  snd (fetch_call env cfg g w)))"
  using assms
  by (cases "fetch_call env cfg g w") (simp add: fetch_due_def fetch_call_def)

lemma ticks_add_lead:
  assumes "0 \<le> t" and "t < TICKS_PERIOD"
  shows "ticks_diff (ticks_add t interval_ms) t = interval_ms"
proof -
  have "((t + 600000) mod 1073741824 - t + 536870912) mod 1073741824
        = ((t + 600000) - t + 536870912) mod (1073741824 :: int)"
    by (rule mod_add_cong) (simp_all add: mod_diff_left_eq)
  then show ?thesis
    by (simp add: ticks_diff_def ticks_add_def TICKS_PERIOD_def interval_ms_def)
qed

lemma ticks_of_range: "0 \<le> ticks_of c \<and> ticks_of c < TICKS_PERIOD"
  by (simp add: ticks_of_def TICKS_PERIOD_def)

lemma ticks_add_of: "ticks_add (ticks_of c) interval_ms = ticks_of (c + 600000)"
  by (simp add: ticks_add_def ticks_of_def TICKS_PERIOD_def interval_ms_def mod_simps)

lemma ticks_diff_before:
  assumes "d < 536870912"
  shows "ticks_diff (ticks_of c) (ticks_of (c + d)) = - int d"
proof -
  have "(int c mod 1073741824 - (int c + int d) mod 1073741824 + 536870912) mod 1073741824
        = (int c - (int c + int d) + 536870912) mod (1073741824 :: int)"
    by (rule mod_add_cong, rule mod_diff_cong) simp_all
  also have "\<dots> = (536870912 - int d) mod 1073741824"
    by simp
  also have "\<dots> = 536870912 - int d"
    using assms by simp
  finally show ?thesis
    by (simp add: ticks_diff_def ticks_of_def TICKS_PERIOD_def)
qed

lemma not_due_within_interval:
  assumes "d < 600000"
  shows "\<not> is_due (ticks_of (c + d)) (ticks_add (ticks_of c) interval_ms)"
proof -
  have "c + 600000 = (c + d) + (600000 - d)"
    using assms by simp
  then have "ticks_diff (ticks_of (c + d)) (ticks_of (c + 600000)) = - int (600000 - d)"
    using ticks_diff_before [of "600000 - d" "c + d"] by simp
  then show ?thesis
    using assms by (simp add: is_due_def ticks_add_of)
qed

lemma due_after_interval: "is_due (ticks_of (c + 600000)) (ticks_add (ticks_of c) interval_ms)"
  using ticks_diff_elapsed [of 0 "c + 600000"] by (simp add: is_due_def ticks_add_of)

lemma lcd_view_append [simp]: "lcd_view (xs @ ys) = lcd_view xs @ lcd_view ys"
  by (simp add: lcd_view_def)

lemma fetch_call_down:
  "fst (fetch_call env_down cfg g w) = Inr (None, Some ''NET ECONNABORTED'')
   \<and> clock (snd (fetch_call env_down cfg g w)) = clock w
   \<and> lcd_view (trace (snd (fetch_call env_down cfg g w))) = lcd_view (trace w)"
proof -
  have n: "py_format ''NET {}'' [''ECONNABORTED''] = ''NET ECONNABORTED''"
    by simp
  show ?thesis
    by (simp add: fetch_call_def get_weather_openweathermap_def http_get_json_def
          urequests_get_def env_down_def is_TypeError_def Let_def request_failed_def
          str_truthy_def first_error_def opt_str_def lcd_view_def n del: py_format.simps)
qed

text \<open>
  C2, as the claim states it, fails: the deadline is computed from \<open>now\<close>, which is
  read before the fetch, so at the time of the assignment it lies less than the
  interval ahead. Here the fetch fails with nothing cached, \<open>show_error\<close> sleeps two
  seconds, and the deadline is 598000 ms ahead, not 600000.
\<close>

theorem deadline_lead_counterexample:
  "deadline_lead (fetch_due env_down cfg0 geo0 loop0 (ticks_ms world0) world0) = Some 598000
   \<and> interval_ms = 600000"
proof -
  let ?w1 = "snd (fetch_call env_down cfg0 geo0 world0)"
  have c: "fst (fetch_call env_down cfg0 geo0 world0) = Inr (None, Some ''NET ECONNABORTED'')"
      "clock ?w1 = 0"
    using fetch_call_down [of cfg0 geo0 world0] by (simp_all add: world0_def)
  have f: "clock (fetch_failed env_down (cfg_lcd cfg0) (cfg_cols cfg0) (last_weather loop0)
                    (Some ''NET ECONNABORTED'') ?w1) = 2000"
    using c(2) by (simp add: fetch_failed_def Let_def show_error_clock loop0_def)
  have u: "fetch_due env_down cfg0 geo0 loop0 (ticks_ms world0) world0
             = (Inr (loop0\<lparr>next_fetch := ticks_add (ticks_ms world0) interval_ms\<rparr>),
                fetch_failed env_down (cfg_lcd cfg0) (cfg_cols cfg0) (last_weather loop0)
                    (Some ''NET ECONNABORTED'') ?w1)"
    by (simp add: fetch_due_unfold [OF c(1)] str_truthy_def)
  have t: "ticks_add (ticks_ms world0) 600000 = 600000"
    by (simp add: ticks_add_def ticks_ms_def ticks_of_def world0_def TICKS_PERIOD_def)
  have tm: "ticks_ms (fetch_failed env_down (cfg_lcd cfg0) (cfg_cols cfg0) (last_weather loop0)
                    (Some ''NET ECONNABORTED'') ?w1) = 2000"
    using f by (simp add: ticks_ms_def ticks_of_def TICKS_PERIOD_def)
  show ?thesis
    unfolding u deadline_lead_def
    by (simp add: t tm ticks_diff_def TICKS_PERIOD_def interval_ms_def)
qed

subsection \<open>The due test of the fetch and the requests of one iteration\<close>

lemma count_list_take_absent:
  assumes "x \<notin> set evs"
  shows "count_list (take k evs) x = 0"
  using assms by (auto simp: count_list_0_iff dest: in_set_takeD)

lemma get_weather_trace:
  "\<exists>evs. trace (snd (get_weather_openweathermap env k la lo w)) = trace w @ evs
         \<and> count_list evs (HttpRequest (weather_url env k la lo) True) = 1"
proof -
  let ?u = "weather_url env k la lo"
  let ?h = "http_get_json env ?u w"
  obtain evs where t: "trace (snd ?h) = trace w @ evs"
    using http_get_json_trace [of env ?u w] by blast
  have c: "count_list evs (HttpRequest ?u True) = 1"
    using http_get_json_trace [of env ?u w ?u] t by auto
  have "trace (snd (get_weather_openweathermap env k la lo w)) = trace (snd ?h)
        \<or> (\<exists>m. trace (snd (get_weather_openweathermap env k la lo w)) = trace (snd ?h) @ [Log m])"
    by (cases ?h)
       (auto simp: get_weather_openweathermap_def split: sum.splits option.splits prod.splits)
  then show ?thesis
    using t c by auto
qed

lemma fetch_call_trace:
  "\<exists>evs. trace (snd (fetch_call env cfg g w)) = trace w @ evs
         \<and> count_list evs (HttpRequest (weather_url env (cfg_api_key cfg) (lat g) (lon g)) True) = 1"
proof -
  let ?w0 = "log_msg ''Weather fetch start'' w"
  obtain evs where "trace (snd (fetch_call env cfg g w)) = trace ?w0 @ evs"
      "count_list evs (HttpRequest (weather_url env (cfg_api_key cfg) (lat g) (lon g)) True) = 1"
    using get_weather_trace [of env "cfg_api_key cfg" "lat g" "lon g" ?w0]
    by (auto simp: fetch_call_def)
  then show ?thesis
    by (intro exI [of _ "Log ''Weather fetch start'' # evs"]) simp
qed

lemma lcd_screen_requests:
  "\<exists>evs. trace (snd (lcd_screen env l cols a b w)) = trace w @ evs
         \<and> count_list evs (HttpRequest u t) = 0"
proof -
  obtain k where "trace (snd (lcd_screen env l cols a b w))
                    = trace w @ take k (LcdClear # lcd_write_lines_ops cols a b)"
    using lcd_calls_trace [of "LcdClear # lcd_write_lines_ops cols a b" env l w]
    by (auto simp: lcd_screen_def)
  moreover have "count_list (take k (LcdClear # lcd_write_lines_ops cols a b)) (HttpRequest u t) = 0"
    by (rule count_list_take_absent) (simp add: lcd_write_lines_ops_def)
  ultimately show ?thesis by blast
qed

lemma show_error_requests:
  "\<exists>evs. trace (show_error env l cols msg s w) = trace w @ evs
         \<and> count_list evs (HttpRequest u t) = 0"
proof -
  let ?w1 = "log_msg (py_format ''ERROR: {}'' [msg]) w"
  let ?ls = "lcd_screen env l cols ''ERROR'' (clamp_str (Some msg) cols) ?w1"
  obtain evs where e: "trace (snd ?ls) = trace ?w1 @ evs" "count_list evs (HttpRequest u t) = 0"
    using lcd_screen_requests [of env l cols "''ERROR''" "clamp_str (Some msg) cols" ?w1] by blast
  show ?thesis
  proof (cases "l = None")
    case True
    then show ?thesis
      by (simp add: show_error_def Let_def del: py_format.simps)
  next
    case False
    then have "trace (show_error env l cols msg s w) = trace (snd ?ls) @ [Sleep (1000 * s)]
        \<or> (\<exists>m. trace (show_error env l cols msg s w) = trace (snd ?ls) @ [Log m, Sleep (1000 * s)])"
      by (cases ?ls; cases "fst ?ls") (simp_all add: show_error_def Let_def del: py_format.simps)
    then show ?thesis
      using e by auto
  qed
qed

lemma fetch_failed_requests:
  "\<exists>evs. trace (fetch_failed env l cols cached werr w) = trace w @ evs
         \<and> count_list evs (HttpRequest u t) = 0"
proof (cases "cached \<noteq> None \<and> l \<noteq> None")
  case False
  let ?w1 = "log_msg (py_format ''Weather fetch failed: {}'' [opt_str werr]) w"
  obtain evs where "trace (show_error env l cols (first_error [werr] ''Weather fail'') 2 ?w1)
                      = trace ?w1 @ evs" "count_list evs (HttpRequest u t) = 0"
    using show_error_requests [of env l cols _ 2 ?w1] by blast
  then show ?thesis
    using False by (auto simp: fetch_failed_def Let_def simp del: py_format.simps)
next
  case True
  let ?w1 = "log_msg (py_format ''Weather fetch failed: {}'' [opt_str werr]) w"
  let ?ls = "lcd_screen env l cols ''API warn'' ''using cached'' ?w1"
  obtain evs where e: "trace (snd ?ls) = trace ?w1 @ evs" "count_list evs (HttpRequest u t) = 0"
    using lcd_screen_requests [of env l cols "''API warn''" "''using cached''" ?w1] by blast
  have "trace (fetch_failed env l cols cached werr w) = trace (snd ?ls) @ [Sleep 2000]
        \<or> (\<exists>m. trace (fetch_failed env l cols cached werr w) = trace (snd ?ls) @ [Log m])"
    using True
    by (cases ?ls; cases "fst ?ls") (simp_all add: fetch_failed_def Let_def del: py_format.simps)
  then show ?thesis
    using e by auto
qed

text \<open>One fetch makes exactly one request to the weather endpoint.\<close>

lemma fetch_due_requests:
  assumes "fst (fetch_call env cfg g w) = Inr (s, werr)"
  shows "\<exists>evs. trace (snd (fetch_due env cfg g st now w)) = trace w @ evs
           \<and> count_list evs (HttpRequest (weather_url env (cfg_api_key cfg) (lat g) (lon g)) True) = 1"
proof -
  let ?u = "weather_url env (cfg_api_key cfg) (lat g) (lon g)"
  let ?w1 = "snd (fetch_call env cfg g w)"
  obtain e1 where e1: "trace ?w1 = trace w @ e1" "count_list e1 (HttpRequest ?u True) = 1"
    using fetch_call_trace [of env cfg g w] by blast
  obtain e2 where e2: "trace (fetch_failed env (cfg_lcd cfg) (cfg_cols cfg) (last_weather st) werr ?w1)
                         = trace ?w1 @ e2" "count_list e2 (HttpRequest ?u True) = 0"
    using fetch_failed_requests [of env "cfg_lcd cfg" "cfg_cols cfg" "last_weather st" werr ?w1]
    by blast
  show ?thesis
    using e1 e2 by (auto simp: fetch_due_unfold [OF assms])
qed

lemma fetch_if_due_idle:
  assumes "\<not> is_due (ticks_ms w) (next_fetch st)"
  shows "fetch_if_due env cfg g st w = (Inr st, w)"
  using assms by (simp add: fetch_if_due_def)

lemma fetch_if_due_fetches:
  assumes "is_due (ticks_ms w) (next_fetch st)"
      and "fetch_due env cfg g st (ticks_ms w) w = (Inr st1, w1)"
  shows "fetch_if_due env cfg g st w = (Inr st1, log_msg ''Next fetch in 10min'' w1)"
  using assms by (simp add: fetch_if_due_def)

lemma display_step_deadline:
  assumes "display_step env cfg g st w = (Inr st1, w1)"
  shows "next_fetch st1 = next_fetch st"
  using assms
  by (auto simp: display_step_def Let_def split: option.splits sum.splits prod.splits)

lemma main_iteration_idle:
  assumes "wifi_ensure_connected env (cfg_ssid cfg) (cfg_password cfg) (cfg_lcd cfg) (cfg_cols cfg) w
             = Some (Inr b, w1)"
      and "\<not> is_due (ticks_ms w1) (next_fetch st)"
  shows "main_iteration env cfg g st w
           = (case display_step env cfg g st w1 of
                (Inl e, w3) \<Rightarrow> Some (Inl e, w3)
              | (Inr st2, w3) \<Rightarrow> Some (Inr st2, sleep_ms 100 w3))"
  using assms by (simp add: main_iteration_def fetch_if_due_idle)

text \<open>
  C2, amended. In every iteration in which the deadline is due and the fetch returns
  (a sample or an error), the loop makes exactly one request to the weather endpoint
  and sets \<open>next_fetch\<close> to \<open>ticks_add(now, interval_ms)\<close>, with the \<open>now\<close> that was
  read when the deadline was found due, before the fetch: exactly 600000 ms after
  that reading, and no further ahead at the later time of the assignment. At every
  reading of the clock less than 600000 ms after \<open>now\<close> the loop's test is false:
  \<open>fetch_if_due\<close> returns the state and the world unchanged, and an iteration of
  \<open>main\<close> is the connectivity check and the display step only, which leaves the
  deadline as it is. At 600000 ms the deadline is due again. So there is at most one
  fetch per interval.
\<close>

theorem fetch_if_due_once_per_interval:
  assumes "is_due (ticks_ms w) (next_fetch st)"
      and "fst (fetch_call env cfg g w) = Inr (s, werr)"
  shows "(\<exists>st' w' evs.
            fetch_if_due env cfg g st w = (Inr st', log_msg ''Next fetch in 10min'' w')
            \<and> fetch_due env cfg g st (ticks_ms w) w = (Inr st', w')
            \<and> trace w' = trace w @ evs
            \<and> count_list evs (HttpRequest (weather_url env (cfg_api_key cfg) (lat g) (lon g)) True) = 1
            \<and> next_fetch st' = ticks_add (ticks_ms w) interval_ms
            \<and> ticks_diff (next_fetch st') (ticks_ms w) = interval_ms
            \<and> clock w \<le> clock w')
         \<and> interval_ms = 600000
         \<and> (next_fetch sa = ticks_add (ticks_ms w) interval_ms \<and> clock wa = clock w + d
              \<and> d < 600000 \<longrightarrow>
              \<not> is_due (ticks_ms wa) (next_fetch sa)
              \<and> fetch_if_due env cfg g sa wa = (Inr sa, wa))
         \<and> (next_fetch sa = ticks_add (ticks_ms w) interval_ms \<and> clock wa = clock w + d
              \<and> d < 600000
              \<and> wifi_ensure_connected env (cfg_ssid cfg) (cfg_password cfg) (cfg_lcd cfg)
                    (cfg_cols cfg) wb = Some (Inr b, wa) \<longrightarrow>
              main_iteration env cfg g sa wb
                = (case display_step env cfg g sa wa of
                     (Inl e, wc) \<Rightarrow> Some (Inl e, wc)
                   | (Inr sb, wc) \<Rightarrow> Some (Inr sb, sleep_ms 100 wc)))
         \<and> (display_step env cfg g sa wa = (Inr sb, wc) \<longrightarrow> next_fetch sb = next_fetch sa)
         \<and> (next_fetch sa = ticks_add (ticks_ms w) interval_ms \<and> clock wa = clock w + 600000 \<longrightarrow>
              is_due (ticks_ms wa) (next_fetch sa))"
proof -
  let ?w1 = "snd (fetch_call env cfg g w)"
  have lead: "ticks_diff (ticks_add (ticks_ms w) interval_ms) (ticks_ms w) = interval_ms"
    using ticks_of_range [of "clock w"] by (simp add: ticks_ms_def ticks_add_lead)
  have c1: "clock w \<le> clock ?w1"
    by (rule fetch_call_clock)
  have c2: "clock w \<le> clock (fetch_failed env (cfg_lcd cfg) (cfg_cols cfg) (last_weather st) werr ?w1)"
    using c1 fetch_failed_clock [of ?w1 env "cfg_lcd cfg" "cfg_cols cfg" "last_weather st" werr]
    by simp
  have "\<exists>st' w'. fetch_due env cfg g st (ticks_ms w) w = (Inr st', w')
            \<and> next_fetch st' = ticks_add (ticks_ms w) interval_ms \<and> clock w \<le> clock w'"
    using c1 c2 by (simp add: fetch_due_unfold [OF assms(2)])
  then obtain st' w' where fd: "fetch_due env cfg g st (ticks_ms w) w = (Inr st', w')"
      "next_fetch st' = ticks_add (ticks_ms w) interval_ms" "clock w \<le> clock w'"
    by blast
  obtain evs where ev: "trace w' = trace w @ evs"
      "count_list evs (HttpRequest (weather_url env (cfg_api_key cfg) (lat g) (lon g)) True) = 1"
    using fetch_due_requests [OF assms(2), of st "ticks_ms w"] fd(1) by auto
  have fi: "fetch_if_due env cfg g st w = (Inr st', log_msg ''Next fetch in 10min'' w')"
    using assms(1) fd(1) by (rule fetch_if_due_fetches)
  have first: "\<exists>st' w' evs.
            fetch_if_due env cfg g st w = (Inr st', log_msg ''Next fetch in 10min'' w')
            \<and> fetch_due env cfg g st (ticks_ms w) w = (Inr st', w')
            \<and> trace w' = trace w @ evs
            \<and> count_list evs (HttpRequest (weather_url env (cfg_api_key cfg) (lat g) (lon g)) True) = 1
            \<and> next_fetch st' = ticks_add (ticks_ms w) interval_ms
            \<and> ticks_diff (next_fetch st') (ticks_ms w) = interval_ms
            \<and> clock w \<le> clock w'"
    using fi fd ev lead by (intro exI [of _ st'] exI [of _ w'] exI [of _ evs]) simp
  have nd: "next_fetch sa = ticks_add (ticks_ms w) interval_ms \<and> clock wa = clock w + d
              \<and> d < 600000 \<Longrightarrow> \<not> is_due (ticks_ms wa) (next_fetch sa)"
    using not_due_within_interval [of d "clock w"] by (simp add: ticks_ms_def)
  have idle: "next_fetch sa = ticks_add (ticks_ms w) interval_ms \<and> clock wa = clock w + d
              \<and> d < 600000 \<Longrightarrow> fetch_if_due env cfg g sa wa = (Inr sa, wa)"
    using nd by (simp add: fetch_if_due_idle)
  have iter: "next_fetch sa = ticks_add (ticks_ms w) interval_ms \<and> clock wa = clock w + d
              \<and> d < 600000
              \<and> wifi_ensure_connected env (cfg_ssid cfg) (cfg_password cfg) (cfg_lcd cfg)
                    (cfg_cols cfg) wb = Some (Inr b, wa) \<Longrightarrow>
              main_iteration env cfg g sa wb
                = (case display_step env cfg g sa wa of
                     (Inl e, wc) \<Rightarrow> Some (Inl e, wc)
                   | (Inr sb, wc) \<Rightarrow> Some (Inr sb, sleep_ms 100 wc))"
    using nd by (simp add: main_iteration_idle)
  have keep: "display_step env cfg g sa wa = (Inr sb, wc) \<Longrightarrow> next_fetch sb = next_fetch sa"
    by (rule display_step_deadline)
  have du: "next_fetch sa = ticks_add (ticks_ms w) interval_ms \<and> clock wa = clock w + 600000 \<Longrightarrow>
              is_due (ticks_ms wa) (next_fetch sa)"
    using due_after_interval [of "clock w"] by (simp add: ticks_ms_def)
  have iv: "interval_ms = 600000"
    by (simp add: interval_ms_def)
  show ?thesis
    apply (intro conjI impI)
    subgoal by (rule first)
    subgoal by (rule iv)
    subgoal using nd by blast
    subgoal using idle by blast
    subgoal using iter by blast
    subgoal using keep by blast
    subgoal using du by blast
    done
qed

theorem fetch_if_due_once_per_interval_witness:
  "(\<exists>st' w'. fetch_if_due env_down cfg0 geo0 loop0 world0
                 = (Inr st', log_msg ''Next fetch in 10min'' w')
       \<and> next_fetch st' = 600000)
   \<and> fetch_if_due env_down cfg0 geo0 (loop0\<lparr>next_fetch := 600000\<rparr>) (world0\<lparr>clock := 599999\<rparr>)
       = (Inr (loop0\<lparr>next_fetch := 600000\<rparr>), world0\<lparr>clock := 599999\<rparr>)
   \<and> is_due (ticks_ms (world0\<lparr>clock := 600000\<rparr>)) 600000"
proof -
  have h0: "is_due (ticks_ms world0) (next_fetch loop0)"
    by (simp add: is_due_def ticks_diff_def ticks_ms_def ticks_of_def world0_def loop0_def
          TICKS_PERIOD_def)
  have h: "fst (fetch_call env_down cfg0 geo0 world0) = Inr (None, Some ''NET ECONNABORTED'')"
    using fetch_call_down [of cfg0 geo0 world0] by simp
  have t: "ticks_add (ticks_ms world0) interval_ms = 600000"
    by (simp add: ticks_add_def ticks_ms_def ticks_of_def world0_def interval_ms_def
          TICKS_PERIOD_def)
  have c: "clock world0 = 0"
    by (simp add: world0_def)
  note inst = fetch_if_due_once_per_interval [OF h0 h]
  have a: "\<exists>st' w'. fetch_if_due env_down cfg0 geo0 loop0 world0
                 = (Inr st', log_msg ''Next fetch in 10min'' w')
       \<and> next_fetch st' = 600000"
  proof -
    have "\<exists>st' w' evs.
            fetch_if_due env_down cfg0 geo0 loop0 world0
              = (Inr st', log_msg ''Next fetch in 10min'' w')
            \<and> fetch_due env_down cfg0 geo0 loop0 (ticks_ms world0) world0 = (Inr st', w')
            \<and> trace w' = trace world0 @ evs
            \<and> count_list evs (HttpRequest (weather_url env_down (cfg_api_key cfg0) (lat geo0)
                                              (lon geo0)) True) = 1
            \<and> next_fetch st' = ticks_add (ticks_ms world0) interval_ms
            \<and> ticks_diff (next_fetch st') (ticks_ms world0) = interval_ms
            \<and> clock world0 \<le> clock w'"
      using inst [where sa = "loop0\<lparr>next_fetch := 600000\<rparr>"
                    and wa = "world0\<lparr>clock := 599999\<rparr>" and d = 599999]
      by (rule conjunct1)
    then obtain st' w' where
        "fetch_if_due env_down cfg0 geo0 loop0 world0 = (Inr st', log_msg ''Next fetch in 10min'' w')"
        "next_fetch st' = ticks_add (ticks_ms world0) interval_ms"
      by blast
    then show ?thesis
      unfolding t by blast
  qed
  have b: "fetch_if_due env_down cfg0 geo0 (loop0\<lparr>next_fetch := 600000\<rparr>) (world0\<lparr>clock := 599999\<rparr>)
       = (Inr (loop0\<lparr>next_fetch := 600000\<rparr>), world0\<lparr>clock := 599999\<rparr>)"
    using inst [where sa = "loop0\<lparr>next_fetch := 600000\<rparr>"
                  and wa = "world0\<lparr>clock := 599999\<rparr>" and d = 599999,
                THEN conjunct2, THEN conjunct2, THEN conjunct1] t c
    by simp
  have d: "is_due (ticks_ms (world0\<lparr>clock := 600000\<rparr>)) 600000"
    using inst [where sa = "loop0\<lparr>next_fetch := 600000\<rparr>"
                  and wa = "world0\<lparr>clock := 600000\<rparr>",
                THEN conjunct2, THEN conjunct2, THEN conjunct2, THEN conjunct2, THEN conjunct2] t c
    by simp
  show ?thesis
    using a b d by blast
qed


subsection \<open>A failed fetch and the cached sample\<close>

lemma lcd_screen_ok:
  assumes "\<forall>n. lcd_at env n = None"
  shows "lcd_screen env (Some d) cols a b w
           = (Inr (), w\<lparr>calls := calls w + 5,
                         trace := trace w @ [LcdClear, LcdSetCursor 0 0, LcdWrite (pad_right (Some a) cols),
                                            LcdSetCursor 0 1, LcdWrite (pad_right (Some b) cols)]\<rparr>)"
  unfolding lcd_screen_def
  by (subst lcd_calls_ok [OF assms]) (simp add: lcd_write_lines_ops_def)

lemma fetch_failed_notice:
  assumes "\<forall>n. lcd_at env n = None"
  shows "trace (fetch_failed env (Some d) cols (Some c) werr w)
           = trace w @ [Log (py_format ''Weather fetch failed: {}'' [opt_str werr]),
                        LcdClear, LcdSetCursor 0 0, LcdWrite (pad_right (Some ''API warn'') cols),
                        LcdSetCursor 0 1, LcdWrite (pad_right (Some ''using cached'') cols),
                        Sleep 2000]"
  by (simp add: fetch_failed_def Let_def lcd_screen_ok [OF assms] del: py_format.simps)

lemma fetch_failed_error:
  assumes "cached = None \<or> l = None"
  shows "fetch_failed env l cols cached werr w
           = show_error env l cols (first_error [werr] ''Weather fail'') 2
               (log_msg (py_format ''Weather fetch failed: {}'' [opt_str werr]) w)"
  using assms by (auto simp: fetch_failed_def Let_def)

lemma show_error_headless:
  "trace (show_error env None cols msg 2 w) = trace w @ [Log (py_format ''ERROR: {}'' [msg]), Sleep 2000]"
  by (simp add: show_error_def Let_def del: py_format.simps)

lemma show_error_screen:
  assumes "\<forall>n. lcd_at env n = None"
  shows "trace (show_error env (Some d) cols msg 2 w)
           = trace w @ [Log (py_format ''ERROR: {}'' [msg]),
                        LcdClear, LcdSetCursor 0 0, LcdWrite (pad_right (Some ''ERROR'') cols),
                        LcdSetCursor 0 1, LcdWrite (pad_right (Some (clamp_str (Some msg) cols)) cols),
                        Sleep 2000]"
  by (simp add: show_error_def Let_def lcd_screen_ok [OF assms] del: py_format.simps)

text \<open>
  C5, as the claim states it, fails: with a cached sample and no display attached
  (\<open>lcd\<close> is \<open>None\<close> after a failed display init), a failed fetch takes the \<open>else\<close>
  branch of \<open>if last_weather and lcd\<close>. No display call is made and the "using cached"
  notice is not shown; \<open>show_error\<close> logs the error instead.
\<close>

theorem cached_notice_counterexample:
  "last_weather loop_cached = Some weather0
   \<and> fst (fetch_call env_down cfg_headless geo0 world0) = Inr (None, Some ''NET ECONNABORTED'')
   \<and> lcd_view (trace (snd (fetch_due env_down cfg_headless geo0 loop_cached
                              (ticks_ms world0) world0))) = []
   \<and> count_list (trace (snd (fetch_due env_down cfg_headless geo0 loop_cached
                               (ticks_ms world0) world0)))
        (Log ''ERROR: NET ECONNABORTED'') = 1"
proof -
  let ?w1 = "snd (fetch_call env_down cfg_headless geo0 world0)"
  have c: "fst (fetch_call env_down cfg_headless geo0 world0) = Inr (None, Some ''NET ECONNABORTED'')"
      "lcd_view (trace ?w1) = []"
    using fetch_call_down [of cfg_headless geo0 world0] by (simp_all add: world0_def lcd_view_def)
  have t1: "trace ?w1 = [Log ''Weather fetch start'',
                         Log (py_format ''HTTP GET {}'' [weather_url env_down ''k'' (lat geo0) (lon geo0)]),
                         HttpRequest (weather_url env_down ''k'' (lat geo0) (lon geo0)) True]"
    by (simp add: fetch_call_def get_weather_openweathermap_def http_get_json_def
          urequests_get_def env_down_def is_TypeError_def Let_def request_failed_def
          str_truthy_def world0_def cfg_headless_def cfg0_def del: py_format.simps)
  have u: "snd (fetch_due env_down cfg_headless geo0 loop_cached (ticks_ms world0) world0)
             = show_error env_down None 16 ''NET ECONNABORTED'' 2
                 (log_msg ''Weather fetch failed: NET ECONNABORTED'' ?w1)"
  proof -
    have k: "cfg_lcd cfg_headless = None" "cfg_cols cfg_headless = 16"
      by (simp_all add: cfg_headless_def cfg0_def)
    show ?thesis
      by (simp add: fetch_due_unfold [OF c(1)] str_truthy_def fetch_failed_error k
            first_error_def opt_str_def)
  qed
  have e: "py_format ''ERROR: {}'' [''NET ECONNABORTED''] = ''ERROR: NET ECONNABORTED''"
    by simp
  have ne: "py_format ''HTTP GET {}'' [x] \<noteq> ''ERROR: NET ECONNABORTED''" for x
    by simp
  show ?thesis
    unfolding u show_error_headless e
    using c ne by (simp add: loop_cached_def lcd_view_def t1 del: py_format.simps)
qed

text \<open>
  C5, amended. When a weather fetch fails, the cached sample \<open>last_weather\<close> is left
  unchanged, and the display step that follows shows it. If a cached sample exists and
  a display is attached whose driver raises no error, the notice "API warn" / "using
  cached" is written exactly once, followed by a pause of two seconds. If no cached
  sample exists or no display is attached, \<open>show_error\<close> is called with the error of
  the fetch: it logs the error, writes the ERROR screen when a display is attached,
  and pauses two seconds.
\<close>

theorem fetch_failure_keeps_cache:
  assumes "fst (fetch_call env cfg g w) = Inr (s, werr)"
      and "str_truthy werr \<or> s = None"
  shows "\<exists>w'. fetch_due env cfg g st now w
                 = (Inr (st\<lparr>next_fetch := ticks_add now interval_ms\<rparr>), w')
           \<and> last_weather (st\<lparr>next_fetch := ticks_add now interval_ms\<rparr>) = last_weather st
           \<and> (last_weather st \<noteq> None \<and> cfg_lcd cfg \<noteq> None \<and> (\<forall>n. lcd_at env n = None) \<longrightarrow>
                trace w' = trace (snd (fetch_call env cfg g w))
                  @ [Log (py_format ''Weather fetch failed: {}'' [opt_str werr]),
                     LcdClear, LcdSetCursor 0 0,
                     LcdWrite (pad_right (Some ''API warn'') (cfg_cols cfg)),
                     LcdSetCursor 0 1,
                     LcdWrite (pad_right (Some ''using cached'') (cfg_cols cfg)),
                     Sleep 2000])
           \<and> (last_weather st = None \<or> cfg_lcd cfg = None \<longrightarrow>
                w' = show_error env (cfg_lcd cfg) (cfg_cols cfg) (first_error [werr] ''Weather fail'') 2
                       (log_msg (py_format ''Weather fetch failed: {}'' [opt_str werr])
                          (snd (fetch_call env cfg g w))))
           \<and> (cfg_lcd cfg = None \<longrightarrow>
                trace w' = trace (snd (fetch_call env cfg g w))
                  @ [Log (py_format ''Weather fetch failed: {}'' [opt_str werr]),
                     Log (py_format ''ERROR: {}'' [first_error [werr] ''Weather fail'']),
                     Sleep 2000])
           \<and> (last_weather st = None \<and> cfg_lcd cfg \<noteq> None \<and> (\<forall>n. lcd_at env n = None) \<longrightarrow>
                trace w' = trace (snd (fetch_call env cfg g w))
                  @ [Log (py_format ''Weather fetch failed: {}'' [opt_str werr]),
                     Log (py_format ''ERROR: {}'' [first_error [werr] ''Weather fail'']),
                     LcdClear, LcdSetCursor 0 0,
                     LcdWrite (pad_right (Some ''ERROR'') (cfg_cols cfg)),
                     LcdSetCursor 0 1,
                     LcdWrite (pad_right (Some (clamp_str (Some (first_error [werr] ''Weather fail''))
                                                   (cfg_cols cfg))) (cfg_cols cfg)),
                     Sleep 2000])
           \<and> (last_weather st = Some c \<and> cfg_lcd cfg = Some d \<longrightarrow>
                display_step env cfg g (st\<lparr>next_fetch := ticks_add now interval_ms\<rparr>) w2
                  = (case show_weather_cycle env (cfg_lcd cfg) (cfg_cols cfg) g c w2 of
                       (Inl e, w3) \<Rightarrow> (Inl e, w3)
                     | (Inr u, w3) \<Rightarrow> (Inr (st\<lparr>next_fetch := ticks_add now interval_ms\<rparr>), w3)))"
proof -
  let ?w1 = "snd (fetch_call env cfg g w)"
  let ?w' = "fetch_failed env (cfg_lcd cfg) (cfg_cols cfg) (last_weather st) werr ?w1"
  have u: "fetch_due env cfg g st now w
             = (Inr (st\<lparr>next_fetch := ticks_add now interval_ms\<rparr>), ?w')"
    using assms(2) by (simp add: fetch_due_unfold [OF assms(1)])
  have a: "last_weather st \<noteq> None \<and> cfg_lcd cfg \<noteq> None \<and> (\<forall>n. lcd_at env n = None) \<Longrightarrow>
        trace ?w' = trace ?w1
                  @ [Log (py_format ''Weather fetch failed: {}'' [opt_str werr]),
                     LcdClear, LcdSetCursor 0 0,
                     LcdWrite (pad_right (Some ''API warn'') (cfg_cols cfg)),
                     LcdSetCursor 0 1,
                     LcdWrite (pad_right (Some ''using cached'') (cfg_cols cfg)),
                     Sleep 2000]"
    using fetch_failed_notice [of env _ "cfg_cols cfg" _ werr ?w1] by auto
  have b: "last_weather st = None \<or> cfg_lcd cfg = None \<Longrightarrow>
        ?w' = show_error env (cfg_lcd cfg) (cfg_cols cfg) (first_error [werr] ''Weather fail'') 2
                (log_msg (py_format ''Weather fetch failed: {}'' [opt_str werr]) ?w1)"
    by (rule fetch_failed_error)
  have c: "cfg_lcd cfg = None \<Longrightarrow>
        trace ?w' = trace ?w1
                  @ [Log (py_format ''Weather fetch failed: {}'' [opt_str werr]),
                     Log (py_format ''ERROR: {}'' [first_error [werr] ''Weather fail'']),
                     Sleep 2000]"
    using b by (simp add: show_error_headless del: py_format.simps)
  have d: "last_weather st = None \<and> cfg_lcd cfg \<noteq> None \<and> (\<forall>n. lcd_at env n = None) \<Longrightarrow>
        trace ?w' = trace ?w1
                  @ [Log (py_format ''Weather fetch failed: {}'' [opt_str werr]),
                     Log (py_format ''ERROR: {}'' [first_error [werr] ''Weather fail'']),
                     LcdClear, LcdSetCursor 0 0,
                     LcdWrite (pad_right (Some ''ERROR'') (cfg_cols cfg)),
                     LcdSetCursor 0 1,
                     LcdWrite (pad_right (Some (clamp_str (Some (first_error [werr] ''Weather fail''))
                                                   (cfg_cols cfg))) (cfg_cols cfg)),
                     Sleep 2000]"
    using b show_error_screen [of env _ "cfg_cols cfg" "first_error [werr] ''Weather fail''"]
    by (auto simp del: py_format.simps)
  have e: "last_weather st = Some c \<and> cfg_lcd cfg = Some d \<Longrightarrow>
        display_step env cfg g (st\<lparr>next_fetch := ticks_add now interval_ms\<rparr>) w2
          = (case show_weather_cycle env (cfg_lcd cfg) (cfg_cols cfg) g c w2 of
               (Inl e, w3) \<Rightarrow> (Inl e, w3)
             | (Inr u, w3) \<Rightarrow> (Inr (st\<lparr>next_fetch := ticks_add now interval_ms\<rparr>), w3))"
    by (simp add: display_step_def)
  have k: "last_weather (st\<lparr>next_fetch := ticks_add now interval_ms\<rparr>) = last_weather st"
    by simp
  show ?thesis
    apply (rule exI [of _ ?w'])
    apply (intro conjI impI)
    subgoal by (rule u)
    subgoal by (rule k)
    subgoal using a by blast
    subgoal using b by blast
    subgoal using c by blast
    subgoal using d by blast
    subgoal using e by blast
    done
qed

theorem fetch_failure_keeps_cache_witness:
  "\<exists>w'. fetch_due env_down cfg0 geo0 loop_cached 0 world0
           = (Inr (loop_cached\<lparr>next_fetch := ticks_add 0 interval_ms\<rparr>), w')
      \<and> lcd_view (trace w')
          = [LcdClear, LcdSetCursor 0 0, LcdWrite (pad_right (Some ''API warn'') 16),
             LcdSetCursor 0 1, LcdWrite (pad_right (Some ''using cached'') 16)]"
proof -
  have h1: "fst (fetch_call env_down cfg0 geo0 world0) = Inr (None, Some ''NET ECONNABORTED'')"
    using fetch_call_down [of cfg0 geo0 world0] by simp
  have h2: "str_truthy (Some ''NET ECONNABORTED'') \<or> (None :: weather option) = None"
    by simp
  have v: "lcd_view (trace (snd (fetch_call env_down cfg0 geo0 world0))) = []"
    using fetch_call_down [of cfg0 geo0 world0] by (simp add: world0_def lcd_view_def)
  have l: "\<forall>n. lcd_at env_down n = None"
    by (simp add: env_down_def)
  have s: "last_weather loop_cached \<noteq> None \<and> cfg_lcd cfg0 \<noteq> None \<and> cfg_cols cfg0 = 16"
    by (simp add: loop_cached_def cfg0_def)
  obtain w' where w': "fetch_due env_down cfg0 geo0 loop_cached 0 world0
           = (Inr (loop_cached\<lparr>next_fetch := ticks_add 0 interval_ms\<rparr>), w')"
      "trace w' = trace (snd (fetch_call env_down cfg0 geo0 world0))
                  @ [Log (py_format ''Weather fetch failed: {}'' [opt_str (Some ''NET ECONNABORTED'')]),
                     LcdClear, LcdSetCursor 0 0,
                     LcdWrite (pad_right (Some ''API warn'') (cfg_cols cfg0)),
                     LcdSetCursor 0 1,
                     LcdWrite (pad_right (Some ''using cached'') (cfg_cols cfg0)),
                     Sleep 2000]"
    using fetch_failure_keeps_cache [OF h1 h2, of loop_cached 0] l s by blast
  show ?thesis
    using w' v s by (intro exI [of _ w']) (simp add: lcd_view_def del: py_format.simps)
qed


section \<open>The connectivity check always returns\<close>










section \<open>Geolocation at start-up\<close>

lemma geo_view_append [simp]: "geo_view (xs @ ys) = geo_view xs @ geo_view ys"
  by (simp add: geo_view_def)

















end
